theory Spec2Isabelle
  imports
    Main
    "HOL-Library.Char_ord"
    "HOL-Library.List_Lexorder"
    "HOL-Library.Product_Lexorder"
    "HOL-Library.Multiset"
begin

section \<open>JavaScript values used by the scheduling core\<close>

text \<open>
  An optional string property (\<open>string | null | undefined\<close>) is a \<open>string option\<close>;
  \<open>None\<close> stands for both \<open>null\<close> and \<open>undefined\<close>. In a condition JavaScript
  treats a missing string and the empty string alike as false.
\<close>

definition truthy :: "string option \<Rightarrow> bool" where
  "truthy s = (case s of None \<Rightarrow> False | Some v \<Rightarrow> v \<noteq> [])"

text \<open>\<open>a || d\<close> for an optional string \<open>a\<close> and a default string \<open>d\<close>.\<close>

definition or_else :: "string option \<Rightarrow> string \<Rightarrow> string" where
  "or_else s d = (case s of None \<Rightarrow> d | Some v \<Rightarrow> (if v = [] then d else v))"

definition isDigit :: "char \<Rightarrow> bool" where
  "isDigit c = (c \<in> set ''0123456789'')"

text \<open>\<open>Array.prototype.join\<close> on strings.\<close>

fun join :: "string \<Rightarrow> string list \<Rightarrow> string" where
  "join sep [] = []"
| "join sep [x] = x"
| "join sep (x # y # ys) = x @ sep @ join sep (y # ys)"

text \<open>
  \<open>a.localeCompare(b)\<close>, as a sign. Which strings come first is decided by the
  collation of the host's default locale, not by the program: the language standard
  only requires a consistent comparator that is a total ordering of all strings. A
  collation is given here as the standard for collations defines it, by the sort key
  it assigns to a string: two strings compare as their sort keys do, unit by unit.
  The merger takes the collation as its first argument.
\<close>

type_synonym Collation = "string \<Rightarrow> string"

definition localeCompare :: "Collation \<Rightarrow> string \<Rightarrow> string \<Rightarrow> int" where
  "localeCompare coll a b = (if coll a < coll b then - 1 else if coll a = coll b then 0 else 1)"

text \<open>
  The collation whose sort key is the string itself. On strings of the one shape
  \<open>YYYY-MM-DD\<close> the collations of the hosts order as it does, by the digits from
  the left; on other strings they need not (an upper-case letter is a smaller code
  unit than every lower-case letter and yet sorts after \<open>a\<close> in most locales).
\<close>

definition codeUnitOrder :: Collation where
  "codeUnitOrder s = s"

text \<open>
  \<open>Array.prototype.sort(cmp)\<close>: the language standard fixes the result for a consistent
  comparator as the stable sorted arrangement. The model builds it by stable insertion:
  an element goes in front of the first element it does not compare greater than.
\<close>

fun insert_by :: "('a \<Rightarrow> 'a \<Rightarrow> int) \<Rightarrow> 'a \<Rightarrow> 'a list \<Rightarrow> 'a list" where
  "insert_by cmp x [] = [x]"
| "insert_by cmp x (y # ys) =
     (if cmp x y \<le> 0 then x # y # ys else y # insert_by cmp x ys)"

definition array_sort :: "('a \<Rightarrow> 'a \<Rightarrow> int) \<Rightarrow> 'a list \<Rightarrow> 'a list" where
  "array_sort cmp xs = foldr (insert_by cmp) xs []"


section \<open>Unified item merger (UnifiedDataMerger)\<close>

subsection \<open>Data\<close>

text \<open>The fields of \<open>tasks_v1.Schema$Task\<close> that the merger reads.\<close>

record Task =
  task_id :: "string option"
  task_title :: "string option"
  task_notes :: "string option"
  task_due :: "string option"
  task_status :: "string option"

text \<open>\<open>CalendarEvent.start\<close>: a timed start, an all-day date, both or neither.\<close>

record EventStart =
  start_dateTime :: "string option"
  start_date :: "string option"

text \<open>
  \<open>CalendarEvent\<close>. \<open>ev_private\<close> is \<open>extendedProperties?.private\<close>, a string-keyed
  dictionary, absent when either level is missing.
\<close>

record CalendarEvent =
  ev_id :: "string option"
  ev_summary :: "string option"
  ev_description :: "string option"
  ev_start :: "EventStart option"
  ev_recurrence :: "string list option"
  ev_private :: "(string \<times> string) list option"

datatype ItemType = task | calendar

record Source =
  taskListId :: "string option"
  calendarId :: "string option"

record UnifiedItem =
  item_id :: string
  item_type :: ItemType
  title :: string
  dueDate :: string
  dueDateTime :: "string option"
  description :: "string option"
  completed :: "bool option"
  isAllDay :: "bool option"
  recurring :: "string option"
  source :: Source

datatype error = Error string

subsection \<open>Conversions\<close>

text \<open>The test \<open>/^\d{4}-\d{2}-\d{2}$/\<close>.\<close>

definition isDateOnly :: "string \<Rightarrow> bool" where
  "isDateOnly s =
     (length s = 10 \<and> s ! 4 = CHR ''-'' \<and> s ! 7 = CHR ''-'' \<and>
      (\<forall>i \<in> {0, 1, 2, 3, 5, 6, 8, 9}. isDigit (s ! i)))"

definition extractDate :: "string \<Rightarrow> string" where
  "extractDate dateString =
     (if isDateOnly dateString then dateString
      else if CHR ''T'' \<in> set dateString then takeWhile (\<lambda>c. c \<noteq> CHR ''T'') dateString
      else dateString)"

text \<open>\<open>event.start?.date\<close> and \<open>event.start?.dateTime\<close>.\<close>

definition startDateOf :: "CalendarEvent \<Rightarrow> string option" where
  "startDateOf event = (case ev_start event of None \<Rightarrow> None | Some s \<Rightarrow> start_date s)"

definition startDateTimeOf :: "CalendarEvent \<Rightarrow> string option" where
  "startDateTimeOf event = (case ev_start event of None \<Rightarrow> None | Some s \<Rightarrow> start_dateTime s)"

text \<open>\<open>event.extendedProperties?.private?.isTask === 'true'\<close>.\<close>

definition isTaskEvent :: "CalendarEvent \<Rightarrow> bool" where
  "isTaskEvent event =
     (case ev_private event of None \<Rightarrow> False
      | Some props \<Rightarrow> map_of props ''isTask'' = Some ''true'')"

definition calendarEventToUnified :: "CalendarEvent \<Rightarrow> string \<Rightarrow> error + UnifiedItem" where
  "calendarEventToUnified event calId =
     (let startDate = or_else (startDateOf event) (or_else (startDateTimeOf event) []);
          due = extractDate startDate
      in if \<not> truthy (ev_id event) then Inl (Error ''Calendar event must have an ID'')
         else Inr \<lparr> item_id = the (ev_id event),
                    item_type = (if isTaskEvent event then task else calendar),
                    title = or_else (ev_summary event) ''(No title)'',
                    dueDate = due,
                    dueDateTime = startDateTimeOf event,
                    description = ev_description event,
                    completed = None,
                    isAllDay = Some (truthy (startDateOf event)),
                    recurring = map_option (join '';'') (ev_recurrence event),
                    source = \<lparr> taskListId = None, calendarId = Some calId \<rparr> \<rparr>)"

definition taskToUnified :: "Task \<Rightarrow> string \<Rightarrow> UnifiedItem" where
  "taskToUnified t listId =
     (let due = extractDate (or_else (task_due t) [])
      in \<lparr> item_id = or_else (task_id t) [],
           item_type = task,
           title = or_else (task_title t) ''(No title)'',
           dueDate = due,
           dueDateTime = None,
           description = (if truthy (task_notes t) then task_notes t else None),
           completed = Some (task_status t = Some ''completed''),
           isAllDay = None,
           recurring = None,
           source = \<lparr> taskListId = Some listId, calendarId = None \<rparr> \<rparr>)"

subsection \<open>The merge\<close>

text \<open>The first loop of \<open>mergeItems\<close>: what \<open>tasks.forEach\<close> pushes onto \<open>unified\<close>.\<close>

fun pushTasks :: "(Task \<times> string) list \<Rightarrow> UnifiedItem list \<Rightarrow> UnifiedItem list" where
  "pushTasks [] unified = unified"
| "pushTasks ((t, listId) # rest) unified =
     (if truthy (task_title t) then
        (if truthy (task_due t) then pushTasks rest (unified @ [taskToUnified t listId])
         else pushTasks rest unified)
      else pushTasks rest unified)"

text \<open>
  The second loop, \<open>calendarEvents.forEach\<close>. An exception thrown by the conversion
  leaves the loop and the function, so it is the result.
\<close>

fun pushEvents :: "CalendarEvent list \<Rightarrow> UnifiedItem list \<Rightarrow> error + UnifiedItem list" where
  "pushEvents [] unified = Inr unified"
| "pushEvents (event # rest) unified =
     (if truthy (ev_id event) \<and> truthy (ev_summary event) \<and> ev_start event \<noteq> None then
        (case calendarEventToUnified event ''primary'' of
           Inl e \<Rightarrow> Inl e
         | Inr u \<Rightarrow> pushEvents rest (unified @ [u]))
      else pushEvents rest unified)"

text \<open>The comparator handed to \<open>unified.sort\<close>, under the host's collation.\<close>

definition compareItems :: "Collation \<Rightarrow> UnifiedItem \<Rightarrow> UnifiedItem \<Rightarrow> int" where
  "compareItems coll a b =
     (let dateCompare = localeCompare coll (dueDate a) (dueDate b)
      in if dateCompare \<noteq> 0 then dateCompare
         else if item_type a = task \<and> item_type b = calendar then - 1
         else if item_type a = calendar \<and> item_type b = task then 1
         else 0)"

definition mergeItems ::
  "Collation \<Rightarrow> (Task \<times> string) list \<Rightarrow> CalendarEvent list \<Rightarrow> error + UnifiedItem list" where
  "mergeItems coll tasks calendarEvents =
     (case pushEvents calendarEvents (pushTasks tasks []) of
        Inl e \<Rightarrow> Inl e
      | Inr unified \<Rightarrow> Inr (array_sort (compareItems coll) unified))"

subsection \<open>Notions used to state the merger's properties\<close>

text \<open>The two guards of \<open>mergeItems\<close>: which tasks and which events it converts at all.\<close>

definition taskKept :: "Task \<times> string \<Rightarrow> bool" where
  "taskKept p = (truthy (task_title (fst p)) \<and> truthy (task_due (fst p)))"

definition eventKept :: "CalendarEvent \<Rightarrow> bool" where
  "eventKept event =
     (truthy (ev_id event) \<and> truthy (ev_summary event) \<and> ev_start event \<noteq> None)"

text \<open>
  The order the comparator induces: by the collation's sort key of the date, then tasks
  before calendar items.
\<close>

definition typeRank :: "ItemType \<Rightarrow> nat" where
  "typeRank ty = (case ty of task \<Rightarrow> 0 | calendar \<Rightarrow> 1)"

definition sortKey :: "Collation \<Rightarrow> UnifiedItem \<Rightarrow> string \<times> nat" where
  "sortKey coll x = (coll (dueDate x), typeRank (item_type x))"

text \<open>
  What the two loops of \<open>mergeItems\<close> are handed, converted one by one and in the order
  of the input lists: the tasks that pass the first guard, then the events that pass the
  second.
\<close>

definition convertedInputs :: "(Task \<times> string) list \<Rightarrow> CalendarEvent list \<Rightarrow> UnifiedItem list" where
  "convertedInputs tasks calendarEvents =
     map (\<lambda>p. taskToUnified (fst p) (snd p)) (filter taskKept tasks)
     @ map (\<lambda>e. projr (calendarEventToUnified e ''primary'')) (filter eventKept calendarEvents)"

text \<open>
  The entities of the specification's scenario, with exactly the fields it lists: task
  \<open>{id: "t1", due: "2025-10-20"}\<close> and the task-tagged event
  \<open>{id: "e1", start: {dateTime: "2025-10-20T21:00:00Z"}}\<close>.
\<close>

definition scenario_t1 :: Task where
  "scenario_t1 =
     \<lparr> task_id = Some ''t1'', task_title = None, task_notes = None,
       task_due = Some ''2025-10-20'', task_status = None \<rparr>"

definition scenario_e1 :: CalendarEvent where
  "scenario_e1 =
     \<lparr> ev_id = Some ''e1'', ev_summary = None, ev_description = None,
       ev_start = Some \<lparr> start_dateTime = Some ''2025-10-20T21:00:00Z'', start_date = None \<rparr>,
       ev_recurrence = None, ev_private = Some [(''isTask'', ''true'')] \<rparr>"

text \<open>Further sample entities: a task without a due date, plain events, an event without a start.\<close>

definition sample_task :: "string \<Rightarrow> string option \<Rightarrow> string option \<Rightarrow> Task" where
  "sample_task i ttl due =
     \<lparr> task_id = Some i, task_title = ttl, task_notes = None, task_due = due,
       task_status = Some ''needsAction'' \<rparr>"

definition sample_event :: "string \<Rightarrow> string option \<Rightarrow> EventStart option \<Rightarrow> CalendarEvent" where
  "sample_event i summ st =
     \<lparr> ev_id = Some i, ev_summary = summ, ev_description = None, ev_start = st,
       ev_recurrence = None, ev_private = None \<rparr>"

definition allDay :: "string \<Rightarrow> EventStart option" where
  "allDay d = Some \<lparr> start_dateTime = None, start_date = Some d \<rparr>"

definition sample_tasks :: "(Task \<times> string) list" where
  "sample_tasks =
     [(sample_task ''tA'' (Some ''Pay rent'') (Some ''2025-10-21T00:00:00.000Z''), ''L1''),
      (sample_task ''tB'' (Some ''Call'') (Some ''2025-10-20''), ''L1''),
      (sample_task ''tC'' (Some ''Someday'') None, ''L2''),
      (scenario_t1, ''L2'')]"

definition sample_events :: "CalendarEvent list" where
  "sample_events =
     [sample_event ''eC'' (Some ''Standup'') (allDay ''2025-10-20''),
      scenario_e1\<lparr>ev_summary := Some ''Dentist''\<rparr>,
      sample_event ''eD'' (Some ''Nowhere'') None,
      sample_event ''eE'' (Some ''Early'') (allDay ''2025-10-19'')]"

section \<open>Dates, instants and time zones\<close>

subsection \<open>Strings and numbers\<close>

text \<open>\<open>s.split(c)\<close> for a one-character separator: never empty, \<open>''.split(c)\<close> is \<open>['']\<close>.\<close>

fun splitOn :: "char \<Rightarrow> string \<Rightarrow> string list" where
  "splitOn c [] = [[]]"
| "splitOn c (x # xs) =
     (if x = c then [] # splitOn c xs
      else (case splitOn c xs of [] \<Rightarrow> [[x]] | w # ws \<Rightarrow> (x # w) # ws))"

text \<open>An array element by index; \<open>None\<close> is \<open>undefined\<close>.\<close>

definition elemAt :: "'a list \<Rightarrow> nat \<Rightarrow> 'a option" where
  "elemAt xs i = (if i < length xs then Some (xs ! i) else None)"

definition isWhite :: "char \<Rightarrow> bool" where
  "isWhite c = (c \<in> {CHR '' '', CHR 0x09, CHR 0x0A, CHR 0x0B, CHR 0x0C, CHR 0x0D})"

definition digitValue :: "char \<Rightarrow> int" where
  "digitValue c = int (of_char c) - 48"

definition digitsValue :: "string \<Rightarrow> int" where
  "digitsValue ds = foldl (\<lambda>acc c. 10 * acc + digitValue c) 0 ds"

text \<open>
  \<open>parseInt(s, 10)\<close>: leading white space, an optional sign, then the longest run of
  decimal digits; \<open>None\<close> is \<open>NaN\<close>. Numbers are exact integers (the model has no
  rounding to 53 bits).
\<close>

definition parseInt :: "string \<Rightarrow> int option" where
  "parseInt s =
     (let s1 = dropWhile isWhite s;
          neg = (s1 \<noteq> [] \<and> hd s1 = CHR ''-'');
          s2 = (if s1 \<noteq> [] \<and> (hd s1 = CHR ''-'' \<or> hd s1 = CHR ''+'') then tl s1 else s1);
          ds = takeWhile isDigit s2
      in if ds = [] then None
         else Some (if neg then - digitsValue ds else digitsValue ds))"

text \<open>\<open>parseInt(x, 10)\<close> of a destructured array element; \<open>undefined\<close> gives \<open>NaN\<close>.\<close>

definition parseIntOpt :: "string option \<Rightarrow> int option" where
  "parseIntOpt x = (case x of None \<Rightarrow> None | Some s \<Rightarrow> parseInt s)"

definition digitChar :: "nat \<Rightarrow> char" where
  "digitChar d = ''0123456789'' ! (d mod 10)"

fun showNat :: "nat \<Rightarrow> string" where
  "showNat n = (if n < 10 then [digitChar n] else showNat (n div 10) @ [digitChar n])"

text \<open>The decimal rendering of an integer in a template string.\<close>

definition showInt :: "int \<Rightarrow> string" where
  "showInt i = (if i < 0 then CHR ''-'' # showNat (nat (- i)) else showNat (nat i))"

text \<open>\<open>String(n).padStart(w, '0')\<close> for a non-negative \<open>n\<close>.\<close>

definition pad :: "nat \<Rightarrow> int \<Rightarrow> string" where
  "pad w n = (let s = showNat (nat n) in replicate (w - length s) CHR ''0'' @ s)"

subsection \<open>Time values\<close>

text \<open>
  A \<open>Date\<close> holds a time value: milliseconds since the epoch, UTC. An invalid date
  (time value \<open>NaN\<close>) is \<open>None\<close>. A time zone is what the language standard calls
  \<open>LocalTZA\<close>: the offset in force at a UTC instant, and the offset in force at a local
  wall-clock time.
\<close>

definition msPerDay :: int where
  "msPerDay = 86400000"

record TimeZone =
  utcOffsetAt :: "int \<Rightarrow> int"
  localOffsetAt :: "int \<Rightarrow> int"

definition LocalTime :: "TimeZone \<Rightarrow> int \<Rightarrow> int" where
  "LocalTime tz t = t + utcOffsetAt tz t"

definition UTC :: "TimeZone \<Rightarrow> int \<Rightarrow> int" where
  "UTC tz t = t - localOffsetAt tz t"

definition Day :: "int \<Rightarrow> int" where
  "Day t = t div msPerDay"

text \<open>
  \<open>TimeClip\<close>: a \<open>Date\<close> holds no time value further than 100,000,000 days from the
  epoch; a computed one beyond that is \<open>NaN\<close>.
\<close>

definition maxTime :: int where
  "maxTime = 8640000000000000"

definition TimeClip :: "int \<Rightarrow> int option" where
  "TimeClip t = (if abs t \<le> maxTime then Some t else None)"

text \<open>A zone whose offset never changes.\<close>

definition fixedZone :: "int \<Rightarrow> TimeZone" where
  "fixedZone off = \<lparr> utcOffsetAt = (\<lambda>_. off), localOffsetAt = (\<lambda>_. off) \<rparr>"

text \<open>
  The day number of a date of the proleptic Gregorian calendar (month \<open>1..12\<close>), counted
  from 1970-01-01, and its inverse. The day of the month enters linearly, so a day
  beyond the month's end runs into the next month, as \<open>MakeDay\<close> does.
\<close>

definition daysFromCivil :: "int \<Rightarrow> int \<Rightarrow> int \<Rightarrow> int" where
  "daysFromCivil y m d =
     (let y' = (if m \<le> 2 then y - 1 else y);
          era = y' div 400;
          yoe = y' mod 400;
          mp = (m + 9) mod 12;
          doy = (153 * mp + 2) div 5 + d - 1;
          doe = yoe * 365 + yoe div 4 - yoe div 100 + doy
      in era * 146097 + doe - 719468)"

definition civilFromDays :: "int \<Rightarrow> int \<times> int \<times> int" where
  "civilFromDays z =
     (let z' = z + 719468;
          era = z' div 146097;
          doe = z' mod 146097;
          yoe = (doe - doe div 1460 + doe div 36524 - doe div 146096) div 365;
          doy = doe - (365 * yoe + yoe div 4 - yoe div 100);
          mp = (5 * doy + 2) div 153;
          d = doy - (153 * mp + 2) div 5 + 1;
          m = (if mp < 10 then mp + 3 else mp - 9);
          y = yoe + era * 400
      in (if m \<le> 2 then y + 1 else y, m, d))"

text \<open>\<open>MakeDay(year, month, date)\<close>: the month is counted from 0 and may lie outside \<open>0..11\<close>.\<close>

definition MakeDay :: "int \<Rightarrow> int \<Rightarrow> int \<Rightarrow> int" where
  "MakeDay year month date = daysFromCivil (year + month div 12) (month mod 12 + 1) date"

text \<open>
  \<open>new Date(year, month, day)\<close>: local midnight of that day, clipped. A \<open>NaN\<close>
  argument gives an invalid date; a year in \<open>0..99\<close> means \<open>1900 + year\<close>.
  Arguments are exact integers. The host computes with 64-bit floats; on what
  \<open>formatDueDate\<close> passes (a year and a day from 0 up, a month from -1 up) it agrees
  with the exact computation: where a float is no longer exact the date is far out of
  range, and invalid on both sides.
\<close>

definition newDate :: "TimeZone \<Rightarrow> int option \<Rightarrow> int option \<Rightarrow> int option \<Rightarrow> int option" where
  "newDate tz year month day =
     (case (year, month, day) of
        (Some y, Some m, Some d) \<Rightarrow>
          TimeClip (UTC tz (MakeDay (if 0 \<le> y \<and> y \<le> 99 then 1900 + y else y) m d * msPerDay))
      | _ \<Rightarrow> None)"

text \<open>
  \<open>getFullYear\<close>, \<open>getMonth\<close> (counted from 0) and \<open>getDate\<close> of a valid date: the
  fields of its local day.
\<close>

definition getFullYear :: "TimeZone \<Rightarrow> int \<Rightarrow> int" where
  "getFullYear tz t = (let (y, m, d) = civilFromDays (Day (LocalTime tz t)) in y)"

definition getMonth :: "TimeZone \<Rightarrow> int \<Rightarrow> int" where
  "getMonth tz t = (let (y, m, d) = civilFromDays (Day (LocalTime tz t)) in m - 1)"

definition getDate :: "TimeZone \<Rightarrow> int \<Rightarrow> int" where
  "getDate tz t = (let (y, m, d) = civilFromDays (Day (LocalTime tz t)) in d)"

text \<open>
  \<open>a.getTime() === b.getTime()\<close>: \<open>NaN\<close> equals nothing, itself included.
\<close>

definition sameTime :: "int option \<Rightarrow> int option \<Rightarrow> bool" where
  "sameTime a b = (case (a, b) of (Some x, Some y) \<Rightarrow> x = y | _ \<Rightarrow> False)"

text \<open>\<open>Date.prototype.toISOString\<close> of a valid time value.\<close>

definition yearString :: "int \<Rightarrow> string" where
  "yearString y =
     (if 0 \<le> y \<and> y \<le> 9999 then pad 4 y
      else (if y < 0 then ''-'' else ''+'') @ pad 6 (abs y))"

definition toISOString :: "int \<Rightarrow> string" where
  "toISOString t =
     (let (y, m, d) = civilFromDays (Day t);
          ms = t mod msPerDay
      in yearString y @ ''-'' @ pad 2 m @ ''-'' @ pad 2 d @ ''T'' @
         pad 2 (ms div 3600000) @ '':'' @ pad 2 (ms div 60000 mod 60) @ '':'' @
         pad 2 (ms div 1000 mod 60) @ ''.'' @ pad 3 (ms mod 1000) @ ''Z'')"

text \<open>\<open>toISOString\<close> on a \<open>Date\<close> that may be invalid: an invalid one throws.\<close>

definition rangeError :: string where
  "rangeError = ''RangeError: Invalid time value''"

definition dateToISOString :: "int option \<Rightarrow> error + string" where
  "dateToISOString date =
     (case date of None \<Rightarrow> Inl (Error rangeError) | Some t \<Rightarrow> Inr (toISOString t))"

definition monthShort :: "int \<Rightarrow> string" where
  "monthShort m =
     [''Jan'', ''Feb'', ''Mar'', ''Apr'', ''May'', ''Jun'',
      ''Jul'', ''Aug'', ''Sep'', ''Oct'', ''Nov'', ''Dec''] ! nat (m - 1)"

text \<open>\<open>d.toLocaleDateString('en-US', { month: 'short', day: 'numeric' })\<close>.\<close>

definition toLocaleDateString :: "TimeZone \<Rightarrow> int option \<Rightarrow> string" where
  "toLocaleDateString tz date =
     (case date of
        None \<Rightarrow> ''Invalid Date''
      | Some t \<Rightarrow> (let (y, m, d) = civilFromDays (Day (LocalTime tz t))
                  in monthShort m @ '' '' @ showInt d))"

text \<open>\<open>Math.ceil(a / b)\<close> for integers, \<open>b\<close> positive.\<close>

definition ceilDiv :: "int \<Rightarrow> int \<Rightarrow> int" where
  "ceilDiv a b = - ((- a) div b)"

subsection \<open>DateTimeUtils\<close>

text \<open>
  \<open>d.setHours(0, 0, 0, 0)\<close> on a valid date: the local midnight of its local day,
  clipped.
\<close>

definition setHoursMidnight :: "TimeZone \<Rightarrow> int \<Rightarrow> int option" where
  "setHoursMidnight tz t = TimeClip (UTC tz (Day (LocalTime tz t) * msPerDay))"

text \<open>\<open>toRFC3339DateOnly(date)\<close>, for a valid \<open>date\<close>.\<close>

definition toRFC3339DateOnly :: "TimeZone \<Rightarrow> int \<Rightarrow> error + string" where
  "toRFC3339DateOnly tz date =
     (let newDate = setHoursMidnight tz date
      in dateToISOString newDate)"

text \<open>The calendar emoji U+1F4C5 that opens every label, as its four UTF-8 bytes.\<close>

definition calendarEmoji :: string where
  "calendarEmoji = [CHR 0xF0, CHR 0x9F, CHR 0x93, CHR 0x85]"

text \<open>
  \<open>formatDueDate(dueDateTime, recurring)\<close>, the arguments named \<open>dueStr\<close> and
  \<open>recurringTag\<close> here; \<open>now\<close> is the time value of \<open>new Date()\<close>, a valid date.
  \<open>daysFromNow\<close> is \<open>None\<close> for \<open>NaN\<close>, on which both comparisons are false.
\<close>

definition formatDueDate :: "TimeZone \<Rightarrow> int \<Rightarrow> string option \<Rightarrow> string option \<Rightarrow> string" where
  "formatDueDate tz now dueStr recurringTag =
     (if \<not> truthy dueStr then []
      else
        let dateStr = hd (splitOn CHR ''T'' (the dueStr));
            parts = splitOn CHR ''-'' dateStr;
            year = parseIntOpt (elemAt parts 0);
            month = map_option (\<lambda>m. m - 1) (parseIntOpt (elemAt parts 1));
            day = parseIntOpt (elemAt parts 2);
            dueDateObj = newDate tz year month day;
            todayAtMidnight =
              newDate tz (Some (getFullYear tz now)) (Some (getMonth tz now)) (Some (getDate tz now));
            tomorrowAtMidnight =
              newDate tz (Some (getFullYear tz now)) (Some (getMonth tz now)) (Some (getDate tz now + 1));
            yesterdayAtMidnight =
              newDate tz (Some (getFullYear tz now)) (Some (getMonth tz now)) (Some (getDate tz now - 1));
            dueDateAtMidnight = newDate tz year month day;
            (displayDate, daysFromNow, isRelativeDate) =
              (if sameTime dueDateAtMidnight todayAtMidnight then (''Today'', Some 0, True)
               else if sameTime dueDateAtMidnight tomorrowAtMidnight then (''Tomorrow'', Some 1, True)
               else if sameTime dueDateAtMidnight yesterdayAtMidnight then (''Yesterday'', Some (- 1), True)
               else (toLocaleDateString tz dueDateObj,
                     (case (dueDateAtMidnight, todayAtMidnight) of
                        (Some due, Some today) \<Rightarrow> Some (ceilDiv (due - today) msPerDay)
                      | _ \<Rightarrow> None),
                     False));
            result = calendarEmoji @ '' '' @ displayDate;
            result1 =
              (if \<not> isRelativeDate then
                 (case daysFromNow of
                    None \<Rightarrow> result
                  | Some n \<Rightarrow>
                      if n > 0 then result @ '' ('' @ showInt n @ ''d from now)''
                      else if n < 0 then result @ '' ('' @ showInt (abs n) @ ''d ago)''
                      else result)
               else result)
        in if truthy recurringTag then result1 @ '' ['' @ the recurringTag @ '']'' else result1)"

text \<open>
  US Central time around the end of daylight saving time in 2025: five hours behind UTC
  until 2025-11-02 07:00 UTC (local 02:00), six hours behind from then on.
\<close>

definition centralTime :: TimeZone where
  "centralTime =
     \<lparr> utcOffsetAt = (\<lambda>t. if t < 1762066800000 then - 18000000 else - 21600000),
       localOffsetAt = (\<lambda>t. if t < 1762048800000 then - 18000000 else - 21600000) \<rparr>"

subsection \<open>Notions used to state the label's properties\<close>

text \<open>
  The day number \<open>formatDueDate\<close> reads from its argument: the date part before \<open>T\<close>,
  split at \<open>-\<close>, each piece through \<open>parseInt\<close>, then \<open>MakeDay\<close> as the \<open>Date\<close>
  constructor applies it. \<open>None\<close> when a piece is not a number.
\<close>

definition dueDayNumber :: "string \<Rightarrow> int option" where
  "dueDayNumber s =
     (let parts = splitOn CHR ''-'' (hd (splitOn CHR ''T'' s))
      in case (parseIntOpt (elemAt parts 0), parseIntOpt (elemAt parts 1), parseIntOpt (elemAt parts 2)) of
           (Some y, Some m, Some d) \<Rightarrow>
             Some (MakeDay (if 0 \<le> y \<and> y \<le> 99 then 1900 + y else y) (m - 1) d)
         | _ \<Rightarrow> None)"


text \<open>The instant of the local midnight that opens day \<open>n\<close>.\<close>

definition localMidnight :: "TimeZone \<Rightarrow> int \<Rightarrow> int" where
  "localMidnight tz n = UTC tz (n * msPerDay)"


text \<open>The date of a day number as \<open>toISOString\<close> writes it, as \<open>2025-10-21\<close>.\<close>

definition isoDate :: "int \<Rightarrow> string" where
  "isoDate n = (let (y, m, d) = civilFromDays n in yearString y @ ''-'' @ pad 2 m @ ''-'' @ pad 2 d)"

section \<open>The panels\<close>

subsection \<open>\<open>Date.parse\<close> on the strings the panels build\<close>

text \<open>
  A clock \<open>HH:mm\<close>, \<open>HH:mm:ss\<close> or \<open>HH:mm:ss.sss\<close>, as milliseconds since midnight.
  The hour 24 is accepted with minutes, seconds and milliseconds all zero: the midnight
  that ends the day.
\<close>

definition parseClock :: "string \<Rightarrow> int option" where
  "parseClock s =
     (let n = length s;
          shaped =
            ((n = 5 \<or> n = 8 \<or> n = 12)
             \<and> list_all isDigit (take 2 s) \<and> s ! 2 = CHR '':'' \<and> list_all isDigit (take 2 (drop 3 s))
             \<and> (if 8 \<le> n then s ! 5 = CHR '':'' \<and> list_all isDigit (take 2 (drop 6 s)) else True)
             \<and> (if n = 12 then s ! 8 = CHR ''.'' \<and> list_all isDigit (drop 9 s) else True));
          h = digitsValue (take 2 s);
          mi = digitsValue (take 2 (drop 3 s));
          sec = (if 8 \<le> n then digitsValue (take 2 (drop 6 s)) else 0);
          ms = (if n = 12 then digitsValue (drop 9 s) else 0)
      in if shaped \<and> (h \<le> 23 \<and> mi \<le> 59 \<and> sec \<le> 59 \<or> h = 24 \<and> mi = 0 \<and> sec = 0 \<and> ms = 0)
         then Some (((h * 60 + mi) * 60 + sec) * 1000 + ms) else None)"

text \<open>
  \<open>new Date(s)\<close> for the date-time strings of the standard's format: a date
  \<open>YYYY-MM-DD\<close> alone (UTC), or followed by \<open>T\<close> and a clock, read as UTC when it ends
  in \<open>Z\<close> and as local time otherwise. Every other string is an invalid date. A day of
  the month up to 31 is accepted and runs into the next month.
\<close>

definition dateParse :: "TimeZone \<Rightarrow> string \<Rightarrow> int option" where
  "dateParse tz s =
     (let d = take 10 s;
          rest = drop 10 s;
          y = digitsValue (take 4 d);
          mo = digitsValue (take 2 (drop 5 d));
          dy = digitsValue (drop 8 d)
      in if \<not> isDateOnly d \<or> \<not> (1 \<le> mo \<and> mo \<le> 12 \<and> 1 \<le> dy \<and> dy \<le> 31) then None
         else if rest = [] then Some (daysFromCivil y mo dy * msPerDay)
         else if hd rest \<noteq> CHR ''T'' then None
         else
           let utc = (last rest = CHR ''Z'');
               clock = (if utc then butlast (tl rest) else tl rest)
           in case parseClock clock of
                None \<Rightarrow> None
              | Some ms \<Rightarrow>
                  (let t = daysFromCivil y mo dy * msPerDay + ms
                   in Some (if utc then t else UTC tz t)))"

subsection \<open>The schedule panel (ScheduleWebViewProvider)\<close>

record ScheduleInfo =
  si_dueDateTime :: string
  si_recurring :: "string option"

text \<open>
  The \<open>schedule\<close> case of the message handler: what is handed to the schedule callback,
  when the message has a date and a callback is registered.
\<close>

definition onScheduleMessage :: "bool \<Rightarrow> string option \<Rightarrow> string option \<Rightarrow> ScheduleInfo option" where
  "onScheduleMessage hasCallback date recurringTag =
     (if truthy date \<and> hasCallback then
        (let dueRFC3339 = the date @ ''T00:00:00.000Z''
         in Some \<lparr> si_dueDateTime = dueRFC3339, si_recurring = recurringTag \<rparr>)
      else None)"

subsection \<open>Requests, effects and asynchronous handlers\<close>

record FormData =
  fd_title :: string
  fd_date :: string
  fd_time :: string
  fd_isAllDay :: bool

text \<open>The operations of the two remote stores that the panels call.\<close>

datatype FacadeCall =
    CreateEvent string string string bool
  | UpdateEvent string string string string bool
  | DeleteEvent string
  | TasklistsList
  | AddTask "string option" string string string
  | PatchTask string string string string
  | PatchTaskDueNull string string

record TaskList =
  tl_id :: "string option"
  tl_title :: "string option"

text \<open>
  What an awaited operation resolves to. \<open>NotFound\<close> and \<open>Failure\<close> are rejections (the
  \<open>await\<close> throws); \<open>Picked\<close> is the button chosen in a modal dialog, \<open>None\<close> when it
  was dismissed.
\<close>

datatype Response =
    Ack
  | NotFound
  | Failure string
  | TaskLists "TaskList list"
  | Picked "string option"

definition isError :: "Response \<Rightarrow> bool" where
  "isError r = (case r of NotFound \<Rightarrow> True | Failure m \<Rightarrow> True | _ \<Rightarrow> False)"

definition errorText :: "Response \<Rightarrow> string" where
  "errorText r = (case r of Failure m \<Rightarrow> m | _ \<Rightarrow> ''Error: Not Found'')"

datatype Awaitable = Facade FacadeCall | Dialog string "string list"

datatype Effect =
    Call FacadeCall
  | Asked string "string list"
  | ShowInformation string
  | ShowWarning string
  | ShowError string
  | RefreshCalendar
  | ClearForm

text \<open>
  An \<open>async\<close> function as a resumable computation: it runs, emitting effects, until it
  returns or reaches an \<open>await\<close>; there the awaited operation is started and the rest of
  the function waits for its outcome. \<open>refreshCalendar\<close> (a re-fetch of both stores and
  a re-render, which catches its own errors) is kept as one effect.
\<close>

datatype Proc =
    Done
  | Emit Effect Proc
  | Await Awaitable "Response \<Rightarrow> Proc"

text \<open>\<open>await p; q\<close>.\<close>

primrec andThen :: "Proc \<Rightarrow> Proc \<Rightarrow> Proc" where
  "andThen Done q = q"
| "andThen (Emit e p) q = Emit e (andThen p q)"
| "andThen (Await a k) q = Await a (\<lambda>r. andThen (k r) q)"

definition issued :: "Awaitable \<Rightarrow> Effect" where
  "issued a = (case a of Facade c \<Rightarrow> Call c | Dialog m buttons \<Rightarrow> Asked m buttons)"

text \<open>
  A handler run alone to its end, every awaited operation answered by \<open>answer\<close>: the
  effects in order.
\<close>

primrec runWith :: "(Awaitable \<Rightarrow> Response) \<Rightarrow> Proc \<Rightarrow> Effect list" where
  "runWith answer Done = []"
| "runWith answer (Emit e p) = e # runWith answer p"
| "runWith answer (Await a k) = issued a # runWith answer (k (answer a))"

definition isFacadeCall :: "Effect \<Rightarrow> bool" where
  "isFacadeCall e = (case e of Call c \<Rightarrow> True | _ \<Rightarrow> False)"

subsection \<open>The calendar panel's controller (CalendarWebViewProvider)\<close>

datatype FormMode = create | edit

record EventData =
  ed_taskListId :: "string option"

record Controller =
  calendarProviderSet :: bool
  taskProviderSet :: bool
  taskServiceSet :: bool
  currentMonth :: int
  currentYear :: int
  selectedDate :: "string option"
  eventFormMode :: "FormMode option"
  editingEventId :: "string option"
  editingEventData :: "EventData option"
  editingEventType :: "ItemType option"
  editingTaskListId :: "string option"

datatype MessageType =
    navigate | selectDate | clearDate | createEvent | editEvent | deleteEvent
  | refresh | submitEventForm | cancelEventForm

record CalendarMessage =
  msg_type :: MessageType
  msg_year :: "int option"
  msg_month :: "int option"
  msg_date :: "string option"
  msg_eventId :: "string option"
  msg_eventData :: "EventData option"
  msg_itemType :: "ItemType option"
  msg_mode :: "FormMode option"
  msg_formData :: "FormData option"

definition refreshProc :: Proc where
  "refreshProc = Emit RefreshCalendar Done"

definition submitCreateEvent :: "TimeZone \<Rightarrow> Controller \<Rightarrow> FormData \<Rightarrow> Proc" where
  "submitCreateEvent tz c formData =
     (if \<not> calendarProviderSet c \<or> fd_title formData = [] then Done
      else
        case dateParse tz (fd_date formData @ ''T'' @ fd_time formData @ '':00'') of
          None \<Rightarrow> Emit (ShowError (''Failed to create event: '' @ rangeError)) Done
        | Some t \<Rightarrow>
            Await (Facade (CreateEvent (fd_title formData) (toISOString t)
                             (toISOString (t + 60 * 60 * 1000)) (fd_isAllDay formData)))
              (\<lambda>r. if isError r
                    then Emit (ShowError (''Failed to create event: '' @ errorText r)) Done
                    else Emit (ShowInformation ''Event created!'') refreshProc))"

text \<open>The due date \<open>submitCreateTaskFromForm\<close> builds; the conversion may throw.\<close>

definition createTaskDueDate :: "TimeZone \<Rightarrow> FormData \<Rightarrow> error + string" where
  "createTaskDueDate tz formData =
     (if fd_isAllDay formData
      then dateToISOString (dateParse tz (fd_date formData @ ''T00:00:00.000Z''))
      else dateToISOString (dateParse tz (fd_date formData @ ''T'' @ fd_time formData @ '':00'')))"

definition submitCreateTaskFromForm :: "TimeZone \<Rightarrow> Controller \<Rightarrow> FormData \<Rightarrow> Proc" where
  "submitCreateTaskFromForm tz c formData =
     (if \<not> taskProviderSet c \<or> fd_title formData = [] then Done
      else
        case createTaskDueDate tz formData of
          Inl (Error m) \<Rightarrow> Emit (ShowError (''Failed to create task: '' @ m)) Done
        | Inr due \<Rightarrow>
            if \<not> taskServiceSet c then Emit (ShowError ''Google Tasks service not initialized'') Done
            else
              Await (Facade TasklistsList)
                (\<lambda>r. if isError r
                      then Emit (ShowError (''Failed to create task: '' @ errorText r)) Done
                      else
                        case (case r of TaskLists ls \<Rightarrow> ls | _ \<Rightarrow> []) of
                          [] \<Rightarrow> Emit (ShowError ''No task lists found. Please create a task list first.'') Done
                        | l # ls \<Rightarrow>
                            Await (Facade (AddTask (tl_id l) (fd_title formData) due
                                     (''Created from calendar on '' @ fd_date formData @
                                      (if \<not> fd_isAllDay formData then '' at '' @ fd_time formData else []))))
                              (\<lambda>r'. if isError r'
                                     then Emit (ShowError (''Failed to create task: '' @ errorText r')) Done
                                     else Emit (ShowInformation
                                                  (''Task created in '' @
                                                   (case tl_title l of None \<Rightarrow> ''undefined'' | Some n \<Rightarrow> n) @ ''!''))
                                            refreshProc)))"

definition submitEditEvent :: "TimeZone \<Rightarrow> Controller \<Rightarrow> string \<Rightarrow> FormData \<Rightarrow> Proc" where
  "submitEditEvent tz c eventId formData =
     (if \<not> calendarProviderSet c \<or> fd_title formData = [] then Done
      else
        case dateParse tz (fd_date formData @ ''T'' @ fd_time formData @ '':00'') of
          None \<Rightarrow> Emit (ShowError (''Failed to update event: '' @ rangeError)) Done
        | Some t \<Rightarrow>
            Await (Facade (UpdateEvent eventId (fd_title formData) (toISOString t)
                             (toISOString (t + 60 * 60 * 1000)) (fd_isAllDay formData)))
              (\<lambda>r. if isError r
                    then Emit (ShowError (''Failed to update event: '' @ errorText r)) Done
                    else Emit (ShowInformation ''Event updated!'') refreshProc))"

definition taskUpdated :: Proc where
  "taskUpdated = Emit (ShowInformation ''Task updated!'') refreshProc"

text \<open>
  The loop of \<open>submitEditTask\<close> over the task lists: a patch in each list that has an
  id; the first that succeeds ends the function, a failure of any kind moves on.
\<close>

fun scanLists :: "string \<Rightarrow> string \<Rightarrow> string \<Rightarrow> TaskList list \<Rightarrow> Proc" where
  "scanLists taskId ttl due [] = Emit (ShowWarning ''Task not found in any list'') Done"
| "scanLists taskId ttl due (l # ls) =
     (if truthy (tl_id l) then
        Await (Facade (PatchTask (the (tl_id l)) taskId ttl due))
          (\<lambda>r. if isError r then scanLists taskId ttl due ls else taskUpdated)
      else scanLists taskId ttl due ls)"

definition searchAllLists :: "string \<Rightarrow> string \<Rightarrow> string \<Rightarrow> Proc" where
  "searchAllLists taskId ttl due =
     Await (Facade TasklistsList)
       (\<lambda>r. if isError r then Emit (ShowError (''Failed to update task: '' @ errorText r)) Done
             else scanLists taskId ttl due (case r of TaskLists ls \<Rightarrow> ls | _ \<Rightarrow> []))"

definition submitEditTask :: "TimeZone \<Rightarrow> Controller \<Rightarrow> string \<Rightarrow> FormData \<Rightarrow> string option \<Rightarrow> Proc" where
  "submitEditTask tz c taskId formData listId =
     (if \<not> taskProviderSet c \<or> \<not> taskServiceSet c \<or> fd_title formData = [] then Done
      else
        case dateToISOString (dateParse tz (fd_date formData @ ''T00:00:00.000Z'')) of
          Inl (Error m) \<Rightarrow> Emit (ShowError (''Failed to update task: '' @ m)) Done
        | Inr due \<Rightarrow>
            if truthy listId then
              Await (Facade (PatchTask (the listId) taskId (fd_title formData) due))
                (\<lambda>r. if isError r then searchAllLists taskId (fd_title formData) due
                      else taskUpdated)
            else searchAllLists taskId (fd_title formData) due)"

definition handleDeleteEvent :: "Controller \<Rightarrow> string \<Rightarrow> Proc" where
  "handleDeleteEvent c eventId =
     (if \<not> calendarProviderSet c then Done
      else
        Await (Dialog ''Delete this event?'' [''Delete''])
          (\<lambda>confirm.
             if confirm = Picked (Some ''Delete'') then
               Await (Facade (DeleteEvent eventId))
                 (\<lambda>r. if isError r
                       then Emit (ShowError (''Failed to delete event: '' @ errorText r)) Done
                       else Emit (ShowInformation ''Event deleted!'') refreshProc)
             else Done))"

text \<open>
  The message handler of the panel: the assignments it makes before its first \<open>await\<close>,
  and the rest of the handler. The assignments after \<open>submitEventForm\<close>'s awaits are the
  effect \<open>ClearForm\<close>.
\<close>

definition onMessage :: "TimeZone \<Rightarrow> Controller \<Rightarrow> CalendarMessage \<Rightarrow> Controller \<times> Proc" where
  "onMessage tz c message =
     (case msg_type message of
        navigate \<Rightarrow>
          (if msg_month message \<noteq> None \<and> msg_year message \<noteq> None
           then (c\<lparr>currentMonth := the (msg_month message), currentYear := the (msg_year message)\<rparr>,
                 refreshProc)
           else (c, Done))
      | refresh \<Rightarrow> (c, refreshProc)
      | createEvent \<Rightarrow> (c\<lparr>eventFormMode := Some create, editingEventId := None\<rparr>, refreshProc)
      | editEvent \<Rightarrow>
          (if truthy (msg_eventId message)
           then (c\<lparr>eventFormMode := Some edit,
                    editingEventId := msg_eventId message,
                    editingEventData := msg_eventData message,
                    editingEventType := Some (case msg_itemType message of None \<Rightarrow> calendar | Some k \<Rightarrow> k),
                    editingTaskListId := (case msg_eventData message of None \<Rightarrow> None | Some d \<Rightarrow> ed_taskListId d)\<rparr>,
                 Done)
           else (c, Done))
      | submitEventForm \<Rightarrow>
          (case msg_formData message of
             None \<Rightarrow> (c, Done)
           | Some formData \<Rightarrow>
               (let itemType = (case msg_itemType message of None \<Rightarrow> calendar | Some k \<Rightarrow> k);
                    submit =
                      (if msg_mode message = Some create then
                         (if itemType = task then submitCreateTaskFromForm tz c formData
                          else submitCreateEvent tz c formData)
                       else if msg_mode message = Some edit \<and> truthy (msg_eventId message) then
                         (if itemType = task then
                            submitEditTask tz c (the (msg_eventId message)) formData
                              (case msg_eventData message of None \<Rightarrow> None | Some d \<Rightarrow> ed_taskListId d)
                          else submitEditEvent tz c (the (msg_eventId message)) formData)
                       else Done)
                in (c, andThen submit (Emit ClearForm Done))))
      | cancelEventForm \<Rightarrow>
          (c\<lparr>eventFormMode := None, editingEventId := None, editingEventData := None\<rparr>, refreshProc)
      | deleteEvent \<Rightarrow>
          (if truthy (msg_eventId message) then (c, handleDeleteEvent c (the (msg_eventId message)))
           else (c, Done))
      | selectDate \<Rightarrow>
          (if truthy (msg_date message) then (c\<lparr>selectedDate := msg_date message\<rparr>, refreshProc)
           else (c, Done))
      | clearDate \<Rightarrow> (c\<lparr>selectedDate := None\<rparr>, refreshProc))"

subsection \<open>The panel at run time\<close>

text \<open>
  The controller, the handlers suspended at an \<open>await\<close> in the order they suspended,
  and every effect so far. A message starts its handler at once, whatever is
  suspended; an outcome resumes the handler it belongs to.
\<close>

record Panel =
  controller :: Controller
  inFlight :: "(Response \<Rightarrow> Proc) list"
  trace :: "Effect list"

definition clearForm :: "Controller \<Rightarrow> Controller" where
  "clearForm c =
     c\<lparr>eventFormMode := None, editingEventId := None, editingEventData := None,
       editingEventType := None, editingTaskListId := None\<rparr>"

primrec exec :: "Proc \<Rightarrow> Panel \<Rightarrow> Panel" where
  "exec Done p = p"
| "exec (Emit e rest) p =
     exec rest (p\<lparr>controller := (if e = ClearForm then clearForm (controller p) else controller p),
                  trace := trace p @ [e]\<rparr>)"
| "exec (Await a k) p = p\<lparr>inFlight := inFlight p @ [k], trace := trace p @ [issued a]\<rparr>"

definition receive :: "TimeZone \<Rightarrow> CalendarMessage \<Rightarrow> Panel \<Rightarrow> Panel" where
  "receive tz message p =
     (let (c, handler) = onMessage tz (controller p) message
      in exec handler (p\<lparr>controller := c\<rparr>))"

definition resolve :: "nat \<Rightarrow> Response \<Rightarrow> Panel \<Rightarrow> Panel" where
  "resolve i r p =
     (if i < length (inFlight p)
      then exec ((inFlight p ! i) r) (p\<lparr>inFlight := take i (inFlight p) @ drop (Suc i) (inFlight p)\<rparr>)
      else p)"

text \<open>A mutation of the remote stores is outstanding: some handler is suspended.\<close>

definition submitting :: "Panel \<Rightarrow> bool" where
  "submitting p = (inFlight p \<noteq> [])"

definition facadeCalls :: "Panel \<Rightarrow> Effect list" where
  "facadeCalls p = filter isFacadeCall (trace p)"

subsection \<open>The command \<open>googleTasks.clearTaskSchedule\<close>\<close>

record GTask =
  node_task :: Task
  node_taskListId :: string

definition clearTaskSchedule :: "GTask \<Rightarrow> Proc" where
  "clearTaskSchedule node =
     (if \<not> truthy (task_id (node_task node))
      then Emit (ShowError ''Cannot clear schedule for this task'') Done
      else if \<not> truthy (task_due (node_task node))
      then Emit (ShowWarning ''This task does not have a schedule.'') Done
      else
        Await (Dialog ''Clear this task schedule?'' [''Clear'', ''Cancel''])
          (\<lambda>result.
             if result \<noteq> Picked (Some ''Clear'') then Done
             else Emit (ShowInformation
                          (''Schedule cleared for '' @ or_else (task_title (node_task node)) ''task''))
                    (Await (Facade (PatchTaskDueNull (node_taskListId node)
                                      (the (task_id (node_task node)))))
                       (\<lambda>r. Done))))"

subsection \<open>Sample forms and messages\<close>

definition sample_controller :: Controller where
  "sample_controller =
     \<lparr> calendarProviderSet = True, taskProviderSet = True, taskServiceSet = True,
       currentMonth = 9, currentYear = 2025, selectedDate = None, eventFormMode = None,
       editingEventId = None, editingEventData = None, editingEventType = None,
       editingTaskListId = None \<rparr>"

definition sample_panel :: Panel where
  "sample_panel = \<lparr> controller = sample_controller, inFlight = [], trace = [] \<rparr>"

definition sample_form :: "bool \<Rightarrow> FormData" where
  "sample_form allDayPick =
     \<lparr> fd_title = ''Dentist'', fd_date = ''2025-10-21'',
       fd_time = (if allDayPick then ''00:00'' else ''16:00''), fd_isAllDay = allDayPick \<rparr>"

definition submitMessage :: "FormMode \<Rightarrow> ItemType \<Rightarrow> string option \<Rightarrow> FormData \<Rightarrow> CalendarMessage" where
  "submitMessage mode kind eventId formData =
     \<lparr> msg_type = submitEventForm, msg_year = None, msg_month = None, msg_date = None,
       msg_eventId = eventId, msg_eventData = None, msg_itemType = Some kind,
       msg_mode = Some mode, msg_formData = Some formData \<rparr>"

definition deleteMessage :: "string \<Rightarrow> CalendarMessage" where
  "deleteMessage eventId =
     \<lparr> msg_type = deleteEvent, msg_year = None, msg_month = None, msg_date = None,
       msg_eventId = Some eventId, msg_eventData = None, msg_itemType = None,
       msg_mode = None, msg_formData = None \<rparr>"

definition sample_submit :: CalendarMessage where
  "sample_submit = submitMessage create calendar None (sample_form False)"

definition sample_lists :: "TaskList list" where
  "sample_lists =
     [\<lparr>tl_id = Some ''L1'', tl_title = Some ''Home''\<rparr>, \<lparr>tl_id = None, tl_title = None\<rparr>,
      \<lparr>tl_id = Some ''L2'', tl_title = Some ''Work''\<rparr>, \<lparr>tl_id = Some ''L3'', tl_title = None\<rparr>]"

text \<open>A task store in which task \<open>t1\<close> lives in list \<open>L2\<close> only.\<close>

definition sample_store :: "Awaitable \<Rightarrow> Response" where
  "sample_store a =
     (case a of
        Facade TasklistsList \<Rightarrow> TaskLists sample_lists
      | Facade (PatchTask l t ttl due) \<Rightarrow> (if l = ''L2'' \<and> t = ''t1'' then Ack else NotFound)
      | Facade c \<Rightarrow> Ack
      | Dialog m buttons \<Rightarrow> Picked None)"

subsection \<open>Notions used to state the panels' properties\<close>

text \<open>The ids the scan of \<open>submitEditTask\<close> visits: those of the lists that have one.\<close>

definition listIds :: "TaskList list \<Rightarrow> string list" where
  "listIds ls = map (\<lambda>l. the (tl_id l)) (filter (\<lambda>l. truthy (tl_id l)) ls)"

text \<open>The patch of a task in a list is rejected.\<close>

definition patchFails :: "(Awaitable \<Rightarrow> Response) \<Rightarrow> string \<Rightarrow> string \<Rightarrow> string \<Rightarrow> string \<Rightarrow> bool" where
  "patchFails answer taskId ttl due l = isError (answer (Facade (PatchTask l taskId ttl due)))"

text \<open>
  A date string \<open>YYYY-MM-DD\<close> that \<open>Date.parse\<close> accepts in front of a clock, and the
  day number of the date it names.
\<close>

definition acceptedDate :: "string \<Rightarrow> bool" where
  "acceptedDate d =
     (isDateOnly d
      \<and> 1 \<le> digitsValue (take 2 (drop 5 d)) \<and> digitsValue (take 2 (drop 5 d)) \<le> 12
      \<and> 1 \<le> digitsValue (drop 8 d) \<and> digitsValue (drop 8 d) \<le> 31)"

definition pickedDay :: "string \<Rightarrow> int" where
  "pickedDay d =
     daysFromCivil (digitsValue (take 4 d)) (digitsValue (take 2 (drop 5 d))) (digitsValue (drop 8 d))"

text \<open>The first effect of a handler run to its end.\<close>

definition firstEffect :: "(Awaitable \<Rightarrow> Response) \<Rightarrow> Proc \<Rightarrow> Effect option" where
  "firstEffect answer p = (case runWith answer p of [] \<Rightarrow> None | e # es \<Rightarrow> Some e)"
section \<open>Click handling in the calendar grid (the page script of the calendar panel)\<close>

definition DOUBLE_CLICK_DELAY :: int where
  "DOUBLE_CLICK_DELAY = 300"

text \<open>
  What a gesture on a day cell comes to: the cell's date is selected, the selection is
  cleared again (a click on the selected day), or the form for a new item on that date
  is opened (\<open>showEventForm('create', ...)\<close>).
\<close>

datatype Gesture = Selected string | Deselected string | OpenCreateForm string

text \<open>
  The state of the script: its variable \<open>selectedDate\<close>; the map \<open>dayClickTimeouts\<close>
  from a cell's date to its pending timer, kept with each timer's due time and in the
  order the timers were set; the variable \<open>lastClickTime\<close> of each cell's closure; and
  the gestures performed so far. Times are \<open>Date.now()\<close>, in milliseconds.
\<close>

record Page =
  pageSelectedDate :: "string option"
  dayClickTimeouts :: "(string \<times> int) list"
  lastClickTime :: "string \<Rightarrow> int"
  gestures :: "Gesture list"

text \<open>\<open>clearTimeout\<close> of the timer of a date and \<open>dayClickTimeouts.delete\<close>.\<close>

definition removeKey :: "string \<Rightarrow> (string \<times> int) list \<Rightarrow> (string \<times> int) list" where
  "removeKey k ts = filter (\<lambda>e. fst e \<noteq> k) ts"

text \<open>The function handed to \<open>setTimeout\<close> by the click listener of the cell \<open>date\<close>.\<close>

definition timerFires :: "string \<Rightarrow> Page \<Rightarrow> Page" where
  "timerFires date pg =
     (let pg1 =
            (if date \<noteq> [] then
               (if pageSelectedDate pg = Some date
                then pg\<lparr>pageSelectedDate := None, gestures := gestures pg @ [Deselected date]\<rparr>
                else pg\<lparr>pageSelectedDate := Some date, gestures := gestures pg @ [Selected date]\<rparr>)
             else pg)
      in pg1\<lparr>dayClickTimeouts := removeKey date (dayClickTimeouts pg1)\<rparr>)"

text \<open>
  The event loop runs every timer that is due before it delivers an event at time
  \<open>now\<close>, the earliest set first.
\<close>

definition fireDue :: "int \<Rightarrow> Page \<Rightarrow> Page" where
  "fireDue now pg =
     foldl (\<lambda>p date. timerFires date p) pg
       (map fst (filter (\<lambda>e. snd e \<le> now) (dayClickTimeouts pg)))"

text \<open>The \<open>click\<close> listener of the cell \<open>dateAttr\<close>.\<close>

definition onClick :: "string \<Rightarrow> int \<Rightarrow> Page \<Rightarrow> Page" where
  "onClick dateAttr now pg =
     (let timeSinceLastClick = now - lastClickTime pg dateAttr;
          pg1 = pg\<lparr>lastClickTime := (lastClickTime pg)(dateAttr := now)\<rparr>
      in if timeSinceLastClick < DOUBLE_CLICK_DELAY \<and> timeSinceLastClick > 0 then pg1
         else pg1\<lparr>dayClickTimeouts :=
                    removeKey dateAttr (dayClickTimeouts pg1) @ [(dateAttr, now + DOUBLE_CLICK_DELAY)]\<rparr>)"

text \<open>The \<open>dblclick\<close> listener of the cell \<open>dateAttr\<close>.\<close>

definition onDblClick :: "string \<Rightarrow> Page \<Rightarrow> Page" where
  "onDblClick dateAttr pg =
     (let pg1 = pg\<lparr>dayClickTimeouts := removeKey dateAttr (dayClickTimeouts pg)\<rparr>
      in if dateAttr \<noteq> [] then pg1\<lparr>gestures := gestures pg1 @ [OpenCreateForm dateAttr]\<rparr>
         else pg1)"

text \<open>
  The events the browser delivers to the listeners of a day cell, each with the value of
  \<open>Date.now()\<close> at its delivery. A press is a \<open>click\<close>. Whether two presses are a
  double click is the browser's decision, taken by the platform's own interval and not
  by \<open>DOUBLE_CLICK_DELAY\<close>; when it is one, a \<open>dblclick\<close> follows the second \<open>click\<close>.
\<close>

datatype DomEvent = Click string int | DblClick string int

definition dispatch :: "DomEvent \<Rightarrow> Page \<Rightarrow> Page" where
  "dispatch e pg =
     (case e of
        Click d now \<Rightarrow> onClick d now (fireDue now pg)
      | DblClick d now \<Rightarrow> onDblClick d (fireDue now pg))"

definition deliver :: "DomEvent list \<Rightarrow> Page \<Rightarrow> Page" where
  "deliver es pg = foldl (\<lambda>p e. dispatch e p) pg es"

subsection \<open>Notions used to state the properties of the click handling\<close>

definition selections :: "string \<Rightarrow> Page \<Rightarrow> nat" where
  "selections d pg = length (filter (\<lambda>g. g = Selected d \<or> g = Deselected d) (gestures pg))"

definition activations :: "string \<Rightarrow> Page \<Rightarrow> nat" where
  "activations d pg = length (filter (\<lambda>g. g = OpenCreateForm d) (gestures pg))"

definition timersOf :: "string \<Rightarrow> Page \<Rightarrow> (string \<times> int) list" where
  "timersOf d pg = filter (\<lambda>e. fst e = d) (dayClickTimeouts pg)"



section \<open>Properties of the unified item merger\<close>

subsection \<open>The comparator is the lexicographic order on sort key and type\<close>

lemma compareItems_le: "compareItems coll a b \<le> 0 \<longleftrightarrow> sortKey coll a \<le> sortKey coll b"
  by (cases "item_type a"; cases "item_type b")
     (auto simp: compareItems_def localeCompare_def sortKey_def typeRank_def Let_def less_eq_prod_def)

lemma insert_by_compareItems: "insert_by (compareItems coll) x ys = insort_key (sortKey coll) x ys"
  by (induction ys) (simp_all add: compareItems_le)

lemma array_sort_compareItems: "array_sort (compareItems coll) xs = sort_key (sortKey coll) xs"
  by (induction xs) (simp_all add: array_sort_def insert_by_compareItems)

lemma sortKey_le_date:
  "sortKey coll a \<le> sortKey coll b \<Longrightarrow> localeCompare coll (dueDate a) (dueDate b) \<le> 0"
  by (auto simp: sortKey_def less_eq_prod_def localeCompare_def)

lemma sortKey_le_type:
  "sortKey coll a \<le> sortKey coll b \<Longrightarrow> localeCompare coll (dueDate a) (dueDate b) = 0 \<Longrightarrow>
   \<not> (item_type a = calendar \<and> item_type b = task)"
  by (auto simp: sortKey_def less_eq_prod_def typeRank_def localeCompare_def split: if_splits)

lemma localeCompare_refl: "localeCompare coll d d = 0"
  by (simp add: localeCompare_def)

lemma sorted_array_sort:
  "sorted_wrt (\<lambda>a b. sortKey coll a \<le> sortKey coll b) (array_sort (compareItems coll) xs)"
  using sorted_sort_key [of "sortKey coll" xs] by (simp add: array_sort_compareItems sorted_wrt_map)

lemma filter_by_key:
  "filter (\<lambda>x. dueDate x = d \<and> item_type x = ty) xs
     = filter (\<lambda>x. dueDate x = d \<and> item_type x = ty)
         (filter (\<lambda>x. sortKey coll x = (coll d, typeRank ty)) xs)"
  by (induction xs) (auto simp: sortKey_def)

lemma stable_array_sort:
  "filter (\<lambda>x. dueDate x = d \<and> item_type x = ty) (array_sort (compareItems coll) xs)
     = filter (\<lambda>x. dueDate x = d \<and> item_type x = ty) xs"
proof -
  have "filter (\<lambda>x. dueDate x = d \<and> item_type x = ty) (array_sort (compareItems coll) xs)
          = filter (\<lambda>x. dueDate x = d \<and> item_type x = ty)
              (filter (\<lambda>x. sortKey coll x = (coll d, typeRank ty)) (sort_key (sortKey coll) xs))"
    unfolding array_sort_compareItems by (rule filter_by_key)
  also have "\<dots> = filter (\<lambda>x. dueDate x = d \<and> item_type x = ty)
              (filter (\<lambda>x. sortKey coll x = (coll d, typeRank ty)) xs)"
    by (simp only: sort_key_stable)
  also have "\<dots> = filter (\<lambda>x. dueDate x = d \<and> item_type x = ty) xs"
    by (rule filter_by_key [symmetric])
  finally show ?thesis .
qed

lemma mset_array_sort: "mset (array_sort (compareItems coll) xs) = mset xs"
  by (simp add: array_sort_compareItems)

subsection \<open>The two loops\<close>

lemma pushTasks_eq:
  "pushTasks ts acc = acc @ map (\<lambda>p. taskToUnified (fst p) (snd p)) (filter taskKept ts)"
  by (induction ts acc rule: pushTasks.induct) (simp_all add: taskKept_def)

lemma calendarEventToUnified_kept:
  "truthy (ev_id event) \<Longrightarrow> \<exists>u. calendarEventToUnified event c = Inr u"
  by (simp add: calendarEventToUnified_def Let_def)

text \<open>The conversion does throw when it is handed an event without an id.\<close>

lemma calendarEventToUnified_throws:
  "\<not> truthy (ev_id event) \<Longrightarrow>
   calendarEventToUnified event c = Inl (Error ''Calendar event must have an ID'')"
  by (simp add: calendarEventToUnified_def Let_def)

lemma pushEvents_eq:
  "pushEvents es acc =
     Inr (acc @ map (\<lambda>e. projr (calendarEventToUnified e ''primary'')) (filter eventKept es))"
proof (induction es arbitrary: acc)
  case Nil
  then show ?case by simp
next
  case (Cons e es)
  show ?case
  proof (cases "eventKept e")
    case True
    then obtain u where u: "calendarEventToUnified e ''primary'' = Inr u"
      using calendarEventToUnified_kept unfolding eventKept_def by blast
    with True Cons show ?thesis by (simp add: eventKept_def)
  next
    case False
    with Cons show ?thesis by (auto simp add: eventKept_def)
  qed
qed

lemma mergeItems_eq:
  "mergeItems coll ts es = Inr (array_sort (compareItems coll)
      (map (\<lambda>p. taskToUnified (fst p) (snd p)) (filter taskKept ts)
       @ map (\<lambda>e. projr (calendarEventToUnified e ''primary'')) (filter eventKept es)))"
  by (simp add: mergeItems_def pushEvents_eq pushTasks_eq)

lemma sample_merge:
  "mergeItems codeUnitOrder sample_tasks sample_events =
     Inr [projr (calendarEventToUnified (sample_event ''eE'' (Some ''Early'') (allDay ''2025-10-19'')) ''primary''),
          taskToUnified (sample_task ''tB'' (Some ''Call'') (Some ''2025-10-20'')) ''L1'',
          projr (calendarEventToUnified (scenario_e1\<lparr>ev_summary := Some ''Dentist''\<rparr>) ''primary''),
          projr (calendarEventToUnified (sample_event ''eC'' (Some ''Standup'') (allDay ''2025-10-20'')) ''primary''),
          taskToUnified (sample_task ''tA'' (Some ''Pay rent'') (Some ''2025-10-21T00:00:00.000Z'')) ''L1'']"
  by code_simp

lemma sample_merge_ids:
  "map_sum id (map (\<lambda>u. (item_id u, item_type u, dueDate u))) (mergeItems codeUnitOrder sample_tasks sample_events) =
     Inr [(''eE'', calendar, ''2025-10-19''), (''tB'', task, ''2025-10-20''),
          (''e1'', task, ''2025-10-20''), (''eC'', calendar, ''2025-10-20''),
          (''tA'', task, ''2025-10-21'')]"
  by code_simp

subsection \<open>C2: order of the merged list\<close>

text \<open>
  C2. For all input lists and under every collation, \<open>mergeItems\<close> returns a list
  sorted ascending by \<open>dueDate\<close>: \<open>localeCompare\<close> puts no item after a later one.
  Among items whose dates compare equal, and so among items with equal \<open>dueDate\<close>, no
  calendar item precedes a task. And among items with equal \<open>dueDate\<close> and equal type
  the order of the input lists is kept, tasks in the order of \<open>tasks\<close> before events in
  the order of \<open>calendarEvents\<close>: filtering the output by any date and type gives the
  same list as filtering the inputs, converted one by one in input order.
\<close>

theorem mergeItems_sorted_stable:
  "\<exists>items.
      mergeItems coll tasks calendarEvents = Inr items
    \<and> sorted_wrt (\<lambda>a b. localeCompare coll (dueDate a) (dueDate b) \<le> 0) items
    \<and> sorted_wrt (\<lambda>a b. localeCompare coll (dueDate a) (dueDate b) = 0 \<longrightarrow>
                         \<not> (item_type a = calendar \<and> item_type b = task)) items
    \<and> sorted_wrt (\<lambda>a b. dueDate a = dueDate b \<longrightarrow>
                         \<not> (item_type a = calendar \<and> item_type b = task)) items
    \<and> (\<forall>d ty. filter (\<lambda>x. dueDate x = d \<and> item_type x = ty) items
               = filter (\<lambda>x. dueDate x = d \<and> item_type x = ty)
                   (convertedInputs tasks calendarEvents))"
proof -
  let ?items = "array_sort (compareItems coll) (convertedInputs tasks calendarEvents)"
  have m: "mergeItems coll tasks calendarEvents = Inr ?items"
    by (simp add: mergeItems_eq convertedInputs_def)
  have s: "sorted_wrt (\<lambda>a b. sortKey coll a \<le> sortKey coll b) ?items"
    by (rule sorted_array_sort)
  have s1: "sorted_wrt (\<lambda>a b. localeCompare coll (dueDate a) (dueDate b) \<le> 0) ?items"
    by (rule sorted_wrt_mono_rel [OF _ s]) (rule sortKey_le_date)
  have s2: "sorted_wrt (\<lambda>a b. localeCompare coll (dueDate a) (dueDate b) = 0 \<longrightarrow>
                          \<not> (item_type a = calendar \<and> item_type b = task)) ?items"
    by (rule sorted_wrt_mono_rel [OF _ s]) (use sortKey_le_type in blast)
  have s3: "sorted_wrt (\<lambda>a b. dueDate a = dueDate b \<longrightarrow>
                          \<not> (item_type a = calendar \<and> item_type b = task)) ?items"
    by (rule sorted_wrt_mono_rel [OF _ s2]) (simp add: localeCompare_refl)
  have f: "\<forall>d ty. filter (\<lambda>x. dueDate x = d \<and> item_type x = ty) ?items
               = filter (\<lambda>x. dueDate x = d \<and> item_type x = ty)
                   (convertedInputs tasks calendarEvents)"
    by (simp add: stable_array_sort)
  from m s1 s2 s3 f show ?thesis
    by blast
qed

text \<open>
  On the sample input, ordered by code units: the inputs arrive as \<open>tA\<close>, \<open>tB\<close>,
  \<open>eC\<close>, \<open>e1\<close>, \<open>eE\<close>; the merged list has the calendar item of the earliest date
  first, and on 2025-10-20 the task of the first list, the task-tagged event, then the
  plain event.
\<close>

theorem mergeItems_sorted_stable_witness:
  "\<exists>items.
      mergeItems codeUnitOrder sample_tasks sample_events = Inr items
    \<and> map item_id (convertedInputs sample_tasks sample_events) = [''tA'', ''tB'', ''eC'', ''e1'', ''eE'']
    \<and> map item_id items = [''eE'', ''tB'', ''e1'', ''eC'', ''tA'']
    \<and> map item_id (filter (\<lambda>x. dueDate x = ''2025-10-20'' \<and> item_type x = task) items)
        = [''tB'', ''e1'']"
proof -
  obtain items where
    m: "mergeItems codeUnitOrder sample_tasks sample_events = Inr items" and
    f: "\<forall>d ty. filter (\<lambda>x. dueDate x = d \<and> item_type x = ty) items
               = filter (\<lambda>x. dueDate x = d \<and> item_type x = ty)
                   (convertedInputs sample_tasks sample_events)"
    using mergeItems_sorted_stable [of codeUnitOrder sample_tasks sample_events] by blast
  have iu: "map item_id (convertedInputs sample_tasks sample_events)
          = [''tA'', ''tB'', ''eC'', ''e1'', ''eE'']"
    by code_simp
  have "map_sum id (map item_id) (mergeItems codeUnitOrder sample_tasks sample_events)
          = Inr [''eE'', ''tB'', ''e1'', ''eC'', ''tA'']"
    by code_simp
  with m have im: "map item_id items = [''eE'', ''tB'', ''e1'', ''eC'', ''tA'']"
    by simp
  have c: "map item_id (filter (\<lambda>x. dueDate x = ''2025-10-20'' \<and> item_type x = task)
                  (convertedInputs sample_tasks sample_events)) = [''tB'', ''e1'']"
    by code_simp
  from f have f':
    "filter (\<lambda>x. dueDate x = ''2025-10-20'' \<and> item_type x = task) items
       = filter (\<lambda>x. dueDate x = ''2025-10-20'' \<and> item_type x = task)
           (convertedInputs sample_tasks sample_events)"
    by simp
  have fi: "map item_id (filter (\<lambda>x. dueDate x = ''2025-10-20'' \<and> item_type x = task) items)
        = [''tB'', ''e1'']"
    unfolding f' by (rule c)
  show ?thesis
    by (intro exI conjI) (rule m, rule iu, rule im, rule fi)
qed

subsection \<open>What the merged list contains\<close>

lemma taskToUnified_type: "item_type (taskToUnified t l) = task \<and> dueDateTime (taskToUnified t l) = None"
  by (simp add: taskToUnified_def Let_def)

lemma kept_event_item:
  assumes "eventKept e"
  shows "calendarEventToUnified e ''primary'' = Inr (projr (calendarEventToUnified e ''primary''))"
  using calendarEventToUnified_kept [of e "''primary''"] assms by (auto simp: eventKept_def)

lemma set_array_sort: "set (array_sort (compareItems coll) xs) = set xs"
  by (simp add: array_sort_compareItems)

lemma set_mergeItems:
  "mergeItems coll ts es = Inr items \<Longrightarrow>
   set items = (\<lambda>p. taskToUnified (fst p) (snd p)) ` {p \<in> set ts. taskKept p}
             \<union> (\<lambda>e. projr (calendarEventToUnified e ''primary'')) ` {e \<in> set es. eventKept e}"
  by (force simp: mergeItems_eq set_array_sort)

subsection \<open>C3: task-tagged events\<close>

text \<open>
  C3, as the code has it. (1) Every event that passes the guard of the second loop (id
  and summary non-empty, start present) and carries the task tag is in the merged list
  as an item of type \<open>task\<close> whose \<open>dueDateTime\<close> is the event's \<open>start.dateTime\<close>.
  (2) A task-store item is converted to type \<open>task\<close> without a \<open>dueDateTime\<close>.
  (3) The scenario, with a non-empty title on \<open>t1\<close> and a non-empty summary on \<open>e1\<close>:
  the merge is exactly two items, \<open>t1\<close> then \<open>e1\<close>, both of type \<open>task\<close> and dated
  2025-10-20, \<open>e1\<close> with \<open>dueDateTime\<close> 2025-10-20T21:00:00Z and \<open>t1\<close> with none.
\<close>

theorem tagged_event_merged_as_task:
  "(calendarEvent \<in> set calendarEvents \<and> eventKept calendarEvent \<and> isTaskEvent calendarEvent \<longrightarrow>
      (\<exists>items u. mergeItems coll tasks calendarEvents = Inr items \<and> u \<in> set items
         \<and> calendarEventToUnified calendarEvent ''primary'' = Inr u
         \<and> item_type u = task \<and> dueDateTime u = startDateTimeOf calendarEvent))
   \<and> item_type (taskToUnified t listId) = task \<and> dueDateTime (taskToUnified t listId) = None
   \<and> (ttl \<noteq> [] \<and> summ \<noteq> [] \<longrightarrow>
      (\<exists>a b. mergeItems coll [(scenario_t1\<lparr>task_title := Some ttl\<rparr>, l)]
                          [scenario_e1\<lparr>ev_summary := Some summ\<rparr>] = Inr [a, b]
         \<and> item_id a = ''t1'' \<and> item_type a = task \<and> dueDate a = ''2025-10-20''
         \<and> dueDateTime a = None
         \<and> item_id b = ''e1'' \<and> item_type b = task \<and> dueDate b = ''2025-10-20''
         \<and> dueDateTime b = Some ''2025-10-20T21:00:00Z''))"
proof (intro conjI impI)
  assume a: "calendarEvent \<in> set calendarEvents \<and> eventKept calendarEvent \<and> isTaskEvent calendarEvent"
  obtain items where m: "mergeItems coll tasks calendarEvents = Inr items"
    by (simp add: mergeItems_eq)
  let ?u = "projr (calendarEventToUnified calendarEvent ''primary'')"
  have c: "calendarEventToUnified calendarEvent ''primary'' = Inr ?u"
    using a kept_event_item by blast
  have i: "?u \<in> set items"
    using a by (simp add: set_mergeItems [OF m])
  have ty: "item_type ?u = task \<and> dueDateTime ?u = startDateTimeOf calendarEvent"
    using a by (simp add: calendarEventToUnified_def Let_def eventKept_def)
  from m c i ty show "\<exists>items u. mergeItems coll tasks calendarEvents = Inr items \<and> u \<in> set items
         \<and> calendarEventToUnified calendarEvent ''primary'' = Inr u
         \<and> item_type u = task \<and> dueDateTime u = startDateTimeOf calendarEvent"
    by blast
next
  show "item_type (taskToUnified t listId) = task" by (simp add: taskToUnified_type)
next
  show "dueDateTime (taskToUnified t listId) = None" by (simp add: taskToUnified_type)
next
  assume n: "ttl \<noteq> [] \<and> summ \<noteq> []"
  have d1: "extractDate ''2025-10-20'' = ''2025-10-20''"
    by (simp add: extractDate_def)
  have d2: "extractDate ''2025-10-20T21:00:00Z'' = ''2025-10-20''"
    by (simp add: extractDate_def isDateOnly_def)
  let ?a = "taskToUnified (scenario_t1\<lparr>task_title := Some ttl\<rparr>) l"
  let ?e = "scenario_e1\<lparr>ev_summary := Some summ\<rparr>"
  have g1: "truthy (task_title (scenario_t1\<lparr>task_title := Some ttl\<rparr>))"
    "truthy (task_due (scenario_t1\<lparr>task_title := Some ttl\<rparr>))"
    using n by (simp_all add: truthy_def scenario_t1_def)
  have g2: "truthy (ev_id ?e)" "truthy (ev_summary ?e)" "ev_start ?e \<noteq> None"
    using n by (simp_all add: truthy_def scenario_e1_def)
  obtain ub where b: "calendarEventToUnified ?e ''primary'' = Inr ub"
    using calendarEventToUnified_kept [OF g2(1)] by blast
  have pa: "item_id ?a = ''t1'' \<and> item_type ?a = task \<and> dueDate ?a = ''2025-10-20'' \<and> dueDateTime ?a = None"
    by (simp add: taskToUnified_def scenario_t1_def or_else_def d1)
  have pb: "item_id ub = ''e1'' \<and> item_type ub = task \<and> dueDate ub = ''2025-10-20''
             \<and> dueDateTime ub = Some ''2025-10-20T21:00:00Z''"
    using b
    by (auto simp add: calendarEventToUnified_def scenario_e1_def truthy_def or_else_def
          startDateOf_def startDateTimeOf_def isTaskEvent_def d2 Let_def)
  have cmp: "compareItems coll ?a ub \<le> 0"
    using pa pb by (simp add: compareItems_def localeCompare_def)
  have p: "pushEvents [?e] (pushTasks [(scenario_t1\<lparr>task_title := Some ttl\<rparr>, l)] []) = Inr [?a, ub]"
    using g1 g2 by (simp add: b)
  have m: "mergeItems coll [(scenario_t1\<lparr>task_title := Some ttl\<rparr>, l)] [?e] = Inr [?a, ub]"
    unfolding mergeItems_def p using cmp by (simp add: array_sort_def)
  from m pa pb
  show "\<exists>a b. mergeItems coll [(scenario_t1\<lparr>task_title := Some ttl\<rparr>, l)]
                          [scenario_e1\<lparr>ev_summary := Some summ\<rparr>] = Inr [a, b]
         \<and> item_id a = ''t1'' \<and> item_type a = task \<and> dueDate a = ''2025-10-20''
         \<and> dueDateTime a = None
         \<and> item_id b = ''e1'' \<and> item_type b = task \<and> dueDate b = ''2025-10-20''
         \<and> dueDateTime b = Some ''2025-10-20T21:00:00Z''"
    by blast
qed

text \<open>
  With exactly the fields the scenario lists, \<open>t1\<close> has no title and \<open>e1\<close> no summary:
  both guards reject, and the merge is empty rather than two items.
\<close>

theorem scenario_as_listed_is_empty:
  "mergeItems codeUnitOrder [(scenario_t1, ''list1'')] [scenario_e1] = Inr []"
  by code_simp


theorem tagged_event_merged_as_task_witness:
  "(\<exists>items u. mergeItems codeUnitOrder sample_tasks sample_events = Inr items \<and> u \<in> set items
       \<and> calendarEventToUnified (scenario_e1\<lparr>ev_summary := Some ''Dentist''\<rparr>) ''primary'' = Inr u
       \<and> item_type u = task \<and> dueDateTime u = Some ''2025-10-20T21:00:00Z'')
   \<and> (\<exists>a b. mergeItems codeUnitOrder [(scenario_t1\<lparr>task_title := Some ''Pay rent''\<rparr>, ''L1'')]
                        [scenario_e1\<lparr>ev_summary := Some ''Dentist''\<rparr>] = Inr [a, b]
         \<and> item_id a = ''t1'' \<and> item_type a = task \<and> dueDate a = ''2025-10-20''
         \<and> dueDateTime a = None
         \<and> item_id b = ''e1'' \<and> item_type b = task \<and> dueDate b = ''2025-10-20''
         \<and> dueDateTime b = Some ''2025-10-20T21:00:00Z'')"
proof -
  let ?e = "scenario_e1\<lparr>ev_summary := Some ''Dentist''\<rparr>"
  have h1: "?e \<in> set sample_events \<and> eventKept ?e \<and> isTaskEvent ?e"
    by (simp add: sample_events_def eventKept_def isTaskEvent_def truthy_def scenario_e1_def)
  have h2: "''Pay rent'' \<noteq> [] \<and> ''Dentist'' \<noteq> []"
    by simp
  have s: "startDateTimeOf ?e = Some ''2025-10-20T21:00:00Z''"
    by (simp add: startDateTimeOf_def scenario_e1_def)
  show ?thesis
    using tagged_event_merged_as_task
      [of ?e sample_events codeUnitOrder sample_tasks scenario_t1 "''L1''" "''Pay rent''" "''Dentist''" "''L1''"]
      h1 h2 s
    by simp
qed

subsection \<open>C8: which items are merged\<close>

text \<open>
  C8, as the code has it. The merged list is a rearrangement of the converted tasks that
  have a non-empty title and a non-empty due date, and the converted events that have a
  non-empty id, a non-empty summary and a start. So every supplied task with a title and
  a due date is in it, as an item of type \<open>task\<close>; and every item in it comes from such
  a task or such an event: a task without a due field and an event without a start never
  appear.
\<close>

theorem mergeItems_keeps_titled_due_tasks:
  "\<exists>items. mergeItems coll tasks calendarEvents = Inr items
     \<and> mset items =
         mset (map (\<lambda>p. taskToUnified (fst p) (snd p)) (filter taskKept tasks))
         + mset (map (\<lambda>e. projr (calendarEventToUnified e ''primary'')) (filter eventKept calendarEvents))
     \<and> (\<forall>p \<in> set tasks. truthy (task_title (fst p)) \<and> truthy (task_due (fst p)) \<longrightarrow>
            taskToUnified (fst p) (snd p) \<in> set items
          \<and> item_type (taskToUnified (fst p) (snd p)) = task)
     \<and> (\<forall>u \<in> set items.
            (\<exists>p \<in> set tasks. truthy (task_title (fst p)) \<and> truthy (task_due (fst p))
                \<and> u = taskToUnified (fst p) (snd p))
          \<or> (\<exists>e \<in> set calendarEvents. truthy (ev_id e) \<and> truthy (ev_summary e) \<and> ev_start e \<noteq> None
                \<and> calendarEventToUnified e ''primary'' = Inr u))"
proof -
  obtain items where m: "mergeItems coll tasks calendarEvents = Inr items"
    by (simp add: mergeItems_eq)
  have ms: "mset items =
         mset (map (\<lambda>p. taskToUnified (fst p) (snd p)) (filter taskKept tasks))
         + mset (map (\<lambda>e. projr (calendarEventToUnified e ''primary'')) (filter eventKept calendarEvents))"
    using m by (auto simp: mergeItems_eq mset_array_sort)
  note st = set_mergeItems [OF m]
  have a: "\<forall>p \<in> set tasks. truthy (task_title (fst p)) \<and> truthy (task_due (fst p)) \<longrightarrow>
            taskToUnified (fst p) (snd p) \<in> set items
          \<and> item_type (taskToUnified (fst p) (snd p)) = task"
    by (auto simp: st taskKept_def taskToUnified_type)
  have b: "\<forall>u \<in> set items.
            (\<exists>p \<in> set tasks. truthy (task_title (fst p)) \<and> truthy (task_due (fst p))
                \<and> u = taskToUnified (fst p) (snd p))
          \<or> (\<exists>e \<in> set calendarEvents. truthy (ev_id e) \<and> truthy (ev_summary e) \<and> ev_start e \<noteq> None
                \<and> calendarEventToUnified e ''primary'' = Inr u)"
  proof
    fix u assume "u \<in> set items"
    then consider p where "p \<in> set tasks" "taskKept p" "u = taskToUnified (fst p) (snd p)"
      | e where "e \<in> set calendarEvents" "eventKept e" "u = projr (calendarEventToUnified e ''primary'')"
      unfolding st by blast
    then show "(\<exists>p \<in> set tasks. truthy (task_title (fst p)) \<and> truthy (task_due (fst p))
                \<and> u = taskToUnified (fst p) (snd p))
          \<or> (\<exists>e \<in> set calendarEvents. truthy (ev_id e) \<and> truthy (ev_summary e) \<and> ev_start e \<noteq> None
                \<and> calendarEventToUnified e ''primary'' = Inr u)"
    proof cases
      case 1
      then show ?thesis unfolding taskKept_def by blast
    next
      case 2
      from kept_event_item [OF 2(2)] 2 show ?thesis unfolding eventKept_def by metis
    qed
  qed
  from m ms a b show ?thesis by blast
qed

theorem mergeItems_keeps_titled_due_tasks_witness:
  "\<exists>items. mergeItems codeUnitOrder sample_tasks sample_events = Inr items
     \<and> taskToUnified (sample_task ''tB'' (Some ''Call'') (Some ''2025-10-20'')) ''L1'' \<in> set items
     \<and> map item_id items = [''eE'', ''tB'', ''e1'', ''eC'', ''tA'']"
proof -
  let ?p = "(sample_task ''tB'' (Some ''Call'') (Some ''2025-10-20''), ''L1'')"
  obtain items where
    m: "mergeItems codeUnitOrder sample_tasks sample_events = Inr items" and
    a: "\<forall>p \<in> set sample_tasks. truthy (task_title (fst p)) \<and> truthy (task_due (fst p)) \<longrightarrow>
            taskToUnified (fst p) (snd p) \<in> set items
          \<and> item_type (taskToUnified (fst p) (snd p)) = task"
    using mergeItems_keeps_titled_due_tasks [of codeUnitOrder sample_tasks sample_events] by blast
  have h: "?p \<in> set sample_tasks \<and> truthy (task_title (fst ?p)) \<and> truthy (task_due (fst ?p))"
    by (simp add: sample_tasks_def sample_task_def truthy_def)
  with a have i: "taskToUnified (fst ?p) (snd ?p) \<in> set items"
    by blast
  have "map_sum id (map item_id) (mergeItems codeUnitOrder sample_tasks sample_events)
          = Inr [''eE'', ''tB'', ''e1'', ''eC'', ''tA'']"
    by code_simp
  with m have im: "map item_id items = [''eE'', ''tB'', ''e1'', ''eC'', ''tA'']"
    by simp
  from m i im show ?thesis by simp
qed

text \<open>A task that has a due date but no title is left out.\<close>

theorem untitled_task_with_due_excluded:
  "truthy (task_due scenario_t1) \<and> mergeItems codeUnitOrder [(scenario_t1, ''L2'')] [] = Inr []"
  by (simp add: scenario_t1_def truthy_def mergeItems_def array_sort_def)

subsection \<open>C10: the merge never throws\<close>

text \<open>
  C10. For all input lists \<open>mergeItems\<close> returns a list: the error
  \<open>Calendar event must have an ID\<close> of \<open>calendarEventToUnified\<close> is never its result,
  since the loop converts only events whose id is present.
\<close>

theorem mergeItems_total:
  "\<exists>items. mergeItems coll tasks calendarEvents = Inr items"
  by (simp add: mergeItems_eq)

section \<open>Properties of the date and time normalizer\<close>

subsection \<open>Local midnights\<close>

lemma Day_mult: "Day (n * msPerDay) = n"
  by (simp add: Day_def msPerDay_def)






lemma newDate_parts:
  "newDate tz
      (parseIntOpt (elemAt (splitOn CHR ''-'' (hd (splitOn CHR ''T'' s))) 0))
      (map_option (\<lambda>m. m - 1) (parseIntOpt (elemAt (splitOn CHR ''-'' (hd (splitOn CHR ''T'' s))) 1)))
      (parseIntOpt (elemAt (splitOn CHR ''-'' (hd (splitOn CHR ''T'' s))) 2))
   = (case dueDayNumber s of None \<Rightarrow> None | Some n \<Rightarrow> TimeClip (localMidnight tz n))"
  by (simp add: newDate_def dueDayNumber_def Let_def localMidnight_def split: option.splits)






lemma offset_bounds:
  assumes "\<forall>x. abs (localOffsetAt tz x) < msPerDay"
  shows "- 86400000 < localOffsetAt tz x" and "localOffsetAt tz x < 86400000"
proof -
  from assms have "abs (localOffsetAt tz x) < 86400000"
    by (simp add: msPerDay_def)
  then show "- 86400000 < localOffsetAt tz x" and "localOffsetAt tz x < 86400000"
    by arith+
qed

lemma localMidnight_expand: "localMidnight tz n = n * 86400000 - localOffsetAt tz (n * 86400000)"
  by (simp add: localMidnight_def UTC_def msPerDay_def)





text \<open>A due string whose date part does not read as three numbers is labelled as invalid.\<close>

lemma formatDueDate_invalid:
  assumes "s \<noteq> []" and "dueDayNumber s = None"
  shows "formatDueDate tz now (Some s) r =
           calendarEmoji @ '' Invalid Date'' @ (if truthy r then '' ['' @ the r @ '']'' else [])"
proof -
  have t: "truthy (Some s)" using assms(1) by (simp add: truthy_def)
  show ?thesis
    unfolding formatDueDate_def Let_def newDate_parts
    using t by (simp add: assms(2) sameTime_def toLocaleDateString_def)
qed

subsection \<open>C7: the relative label\<close>




subsection \<open>All-day dates on the wire\<close>

lemma pad_zero: "pad 2 0 = ''00''" "pad 3 0 = ''000''"
  by code_simp+

lemma toISOString_midnight: "toISOString (n * msPerDay) = isoDate n @ ''T00:00:00.000Z''"
proof -
  have m: "n * msPerDay mod msPerDay = 0" by simp
  show ?thesis
    unfolding toISOString_def isoDate_def Day_mult Let_def m
    by (simp add: pad_zero split: prod.splits)
qed

lemma parseClock_midnight: "parseClock ''00:00:00.000'' = Some 0"
  by code_simp

lemma dateParse_allDay:
  assumes "acceptedDate d"
  shows "dateParse tz (d @ ''T00:00:00.000Z'') = Some (pickedDay d * msPerDay)"
proof -
  from assms have l: "length d = 10" by (simp add: acceptedDate_def isDateOnly_def)
  then have t: "take 10 (d @ ''T00:00:00.000Z'') = d" "drop 10 (d @ ''T00:00:00.000Z'') = ''T00:00:00.000Z''"
    by simp_all
  show ?thesis
    using assms
    unfolding dateParse_def t Let_def
    by (simp add: acceptedDate_def pickedDay_def parseClock_midnight)
qed


lemma allDay_due:
  assumes "acceptedDate d"
  shows "dateToISOString (dateParse tz (d @ ''T00:00:00.000Z''))
           = Inr (isoDate (pickedDay d) @ ''T00:00:00.000Z'')"
  by (simp add: dateParse_allDay [OF assms] dateToISOString_def toISOString_midnight)

subsection \<open>C1: the wire instant of an all-day pick\<close>

text \<open>
  C1, as the code has it. Let \<open>n\<close> be the day number of an all-day pick, a date that
  \<open>Date.parse\<close> accepts. Both panels encode it at UTC midnight, in every time zone alike:
  the task form of the calendar panel, on creating and on editing, sends the string
  \<open>toISOString\<close> gives for the instant \<open>n\<close> days after the epoch, which is the date of
  day \<open>n\<close> followed by \<open>T00:00:00.000Z\<close>; the schedule panel appends \<open>T00:00:00.000Z\<close>
  to the picked date, and that string denotes the same instant. The instant is the local
  midnight of the picked date only where the zone's offset at that local time is zero.
  The date-only converter of DateTimeUtils, which neither panel calls, is the one that
  encodes the local midnight of the local day of its argument.
\<close>

theorem allDay_due_at_utc_midnight:
  assumes "acceptedDate (fd_date formData)" and "fd_isAllDay formData"
    and "n = pickedDay (fd_date formData)"
  shows "createTaskDueDate tz formData = Inr (isoDate n @ ''T00:00:00.000Z'')
       \<and> (taskProviderSet c \<and> taskServiceSet c \<and> fd_title formData \<noteq> [] \<and> l \<noteq> [] \<longrightarrow>
            firstEffect answer (submitEditTask tz c taskId formData (Some l))
              = Some (Call (PatchTask l taskId (fd_title formData) (isoDate n @ ''T00:00:00.000Z''))))
       \<and> map_option si_dueDateTime (onScheduleMessage True (Some (fd_date formData)) r)
            = Some (fd_date formData @ ''T00:00:00.000Z'')
       \<and> dateParse tz (fd_date formData @ ''T00:00:00.000Z'') = Some (n * msPerDay)
       \<and> toISOString (n * msPerDay) = isoDate n @ ''T00:00:00.000Z''
       \<and> (localMidnight tz n = n * msPerDay \<longleftrightarrow> localOffsetAt tz (n * msPerDay) = 0)
       \<and> toRFC3339DateOnly tz t = dateToISOString (TimeClip (localMidnight tz (Day (LocalTime tz t))))"
proof (intro conjI impI)
  note d = allDay_due [OF assms(1), of tz, folded assms(3)]
  show "createTaskDueDate tz formData = Inr (isoDate n @ ''T00:00:00.000Z'')"
    using assms(2) by (simp add: createTaskDueDate_def d)
  show "firstEffect answer (submitEditTask tz c taskId formData (Some l))
          = Some (Call (PatchTask l taskId (fd_title formData) (isoDate n @ ''T00:00:00.000Z'')))"
    if "taskProviderSet c \<and> taskServiceSet c \<and> fd_title formData \<noteq> [] \<and> l \<noteq> []"
    using that by (simp add: firstEffect_def submitEditTask_def d truthy_def issued_def)
  have ne: "fd_date formData \<noteq> []"
    using assms(1) by (auto simp: acceptedDate_def isDateOnly_def)
  show "map_option si_dueDateTime (onScheduleMessage True (Some (fd_date formData)) r)
            = Some (fd_date formData @ ''T00:00:00.000Z'')"
    using ne by (simp add: onScheduleMessage_def truthy_def)
  show "dateParse tz (fd_date formData @ ''T00:00:00.000Z'') = Some (n * msPerDay)"
    unfolding assms(3) by (rule dateParse_allDay [OF assms(1)])
  show "toISOString (n * msPerDay) = isoDate n @ ''T00:00:00.000Z''"
    by (rule toISOString_midnight)
  show "localMidnight tz n = n * msPerDay \<longleftrightarrow> localOffsetAt tz (n * msPerDay) = 0"
    by (simp add: localMidnight_def UTC_def)
  show "toRFC3339DateOnly tz t = dateToISOString (TimeClip (localMidnight tz (Day (LocalTime tz t))))"
    by (simp add: toRFC3339DateOnly_def setHoursMidnight_def localMidnight_def)
qed

text \<open>
  The all-day pick 2025-10-21 in US Central time: both panels send
  2025-10-21T00:00:00.000Z.
\<close>

theorem allDay_due_at_utc_midnight_witness:
  "createTaskDueDate centralTime (sample_form True) = Inr ''2025-10-21T00:00:00.000Z''
   \<and> firstEffect sample_store (submitEditTask centralTime sample_controller ''t1'' (sample_form True) (Some ''L2''))
       = Some (Call (PatchTask ''L2'' ''t1'' ''Dentist'' ''2025-10-21T00:00:00.000Z''))
   \<and> map_option si_dueDateTime (onScheduleMessage True (Some ''2025-10-21'') None)
       = Some ''2025-10-21T00:00:00.000Z''
   \<and> dateParse centralTime ''2025-10-21T00:00:00.000Z'' = Some 1761004800000
   \<and> localMidnight centralTime 20382 \<noteq> 1761004800000"
proof -
  have f: "fd_date (sample_form True) = ''2025-10-21''" "fd_title (sample_form True) = ''Dentist''"
    by (simp_all add: sample_form_def)
  have h1: "acceptedDate (fd_date (sample_form True))" unfolding f by code_simp
  have h2: "fd_isAllDay (sample_form True)" by (simp add: sample_form_def)
  have h3: "20382 = pickedDay (fd_date (sample_form True))" unfolding f by code_simp
  have g: "taskProviderSet sample_controller \<and> taskServiceSet sample_controller
           \<and> fd_title (sample_form True) \<noteq> [] \<and> ''L2'' \<noteq> []"
    by (simp add: sample_controller_def f)
  have i: "isoDate 20382 = ''2025-10-21''" by code_simp
  have m: "20382 * msPerDay = 1761004800000" by (simp add: msPerDay_def)
  have o: "localOffsetAt centralTime 1761004800000 \<noteq> 0" by (simp add: centralTime_def)
  note t = allDay_due_at_utc_midnight [OF h1 h2 h3,
      of centralTime sample_controller "''L2''" sample_store "''t1''" None]
  from t g o show ?thesis
    by (simp add: i m f)
qed

text \<open>
  The claim as written fails on the all-day date 2025-10-21 in US Central time. Both
  panel paths (the task form of the calendar panel, the schedule panel) encode it as
  2025-10-21T00:00:00.000Z, which is UTC midnight; local midnight of that date is
  2025-10-21T05:00:00.000Z, which is what \<open>new Date(2025, 9, 21)\<close> denotes and what the
  date-only converter of DateTimeUtils returns for an instant of that local day.
\<close>

theorem allDay_due_is_utc_midnight:
  "createTaskDueDate centralTime (sample_form True) = Inr ''2025-10-21T00:00:00.000Z''
   \<and> map_option si_dueDateTime (onScheduleMessage True (Some ''2025-10-21'') None)
       = Some ''2025-10-21T00:00:00.000Z''
   \<and> map_option toISOString (newDate centralTime (Some 2025) (Some 9) (Some 21))
       = Some ''2025-10-21T05:00:00.000Z''
   \<and> toRFC3339DateOnly centralTime 1761058800000 = Inr ''2025-10-21T05:00:00.000Z''"
  by code_simp
section \<open>Properties of the panels\<close>

subsection \<open>A handler's effects do not depend on what is in flight\<close>

lemma exec_decomp:
  "exec h \<lparr>controller = c, inFlight = fl, trace = tr\<rparr> =
     \<lparr> controller = controller (exec h \<lparr>controller = c, inFlight = [], trace = []\<rparr>),
       inFlight = fl @ inFlight (exec h \<lparr>controller = c, inFlight = [], trace = []\<rparr>),
       trace = tr @ trace (exec h \<lparr>controller = c, inFlight = [], trace = []\<rparr>) \<rparr>"
proof (induction h arbitrary: c fl tr)
  case Done
  show ?case by simp
next
  case (Emit e h)
  let ?c = "if e = ClearForm then clearForm c else c"
  have 1: "exec h \<lparr>controller = ?c, inFlight = fl, trace = tr @ [e]\<rparr> =
     \<lparr> controller = controller (exec h \<lparr>controller = ?c, inFlight = [], trace = []\<rparr>),
       inFlight = fl @ inFlight (exec h \<lparr>controller = ?c, inFlight = [], trace = []\<rparr>),
       trace = (tr @ [e]) @ trace (exec h \<lparr>controller = ?c, inFlight = [], trace = []\<rparr>) \<rparr>"
    by (rule Emit.IH)
  have 2: "exec h \<lparr>controller = ?c, inFlight = [], trace = [e]\<rparr> =
     \<lparr> controller = controller (exec h \<lparr>controller = ?c, inFlight = [], trace = []\<rparr>),
       inFlight = [] @ inFlight (exec h \<lparr>controller = ?c, inFlight = [], trace = []\<rparr>),
       trace = [e] @ trace (exec h \<lparr>controller = ?c, inFlight = [], trace = []\<rparr>) \<rparr>"
    by (rule Emit.IH)
  have l: "exec (Emit e h) \<lparr>controller = c, inFlight = fl, trace = tr\<rparr>
            = exec h \<lparr>controller = ?c, inFlight = fl, trace = tr @ [e]\<rparr>"
    by simp
  have r: "exec (Emit e h) \<lparr>controller = c, inFlight = [], trace = []\<rparr>
            = exec h \<lparr>controller = ?c, inFlight = [], trace = [e]\<rparr>"
    by simp
  show ?case unfolding l r 1 2 by simp
next
  case (Await a k)
  show ?case by simp
qed

text \<open>A message is handled the same way whatever is in flight.\<close>

lemma receive_decomp:
  "receive tz m p =
     \<lparr> controller = controller (receive tz m (p\<lparr>inFlight := [], trace := []\<rparr>)),
       inFlight = inFlight p @ inFlight (receive tz m (p\<lparr>inFlight := [], trace := []\<rparr>)),
       trace = trace p @ trace (receive tz m (p\<lparr>inFlight := [], trace := []\<rparr>)) \<rparr>"
proof -
  obtain c h where o: "onMessage tz (controller p) m = (c, h)"
    by (cases "onMessage tz (controller p) m")
  have p: "p = \<lparr>controller = controller p, inFlight = inFlight p, trace = trace p\<rparr>"
    by simp
  have a: "receive tz m p = exec h \<lparr>controller = c, inFlight = inFlight p, trace = trace p\<rparr>"
    by (subst p) (simp add: receive_def o)
  have b: "receive tz m (p\<lparr>inFlight := [], trace := []\<rparr>)
             = exec h \<lparr>controller = c, inFlight = [], trace = []\<rparr>"
    by (subst p) (simp add: receive_def o)
  show ?thesis unfolding a b by (rule exec_decomp)
qed

lemma submitCreateEvent_ready:
  assumes "calendarProviderSet c" "fd_title formData \<noteq> []"
    and "dateParse tz (fd_date formData @ ''T'' @ fd_time formData @ '':00'') = Some t"
  shows "\<exists>k. andThen (submitCreateEvent tz c formData) (Emit ClearForm Done) =
          Await (Facade (CreateEvent (fd_title formData) (toISOString t)
                           (toISOString (t + 3600000)) (fd_isAllDay formData))) k"
  using assms by (simp add: submitCreateEvent_def)

subsection \<open>C4: a submit while another is in flight\<close>

text \<open>
  C4, as the code has it. The controller keeps no submitting state and checks none: a
  message received while handlers are suspended is handled exactly as it is with nothing
  in flight, its effects appended to the trace and its own suspended handler to those
  waiting. In particular a \<open>submitEventForm\<close> message in create mode for a calendar
  item, with a calendar provider, a non-empty title and a date and time that parse,
  issues its own \<open>createEvent\<close> call at once, whatever is in flight, and leaves the
  controller's fields as they are.
\<close>

theorem submit_is_dispatched_regardless:
  "trace (receive tz message p) = trace p @ trace (receive tz message (p\<lparr>inFlight := [], trace := []\<rparr>))
   \<and> inFlight (receive tz message p)
       = inFlight p @ inFlight (receive tz message (p\<lparr>inFlight := [], trace := []\<rparr>))
   \<and> (calendarProviderSet (controller p) \<and> fd_title formData \<noteq> []
        \<and> dateParse tz (fd_date formData @ ''T'' @ fd_time formData @ '':00'') = Some t \<longrightarrow>
       trace (receive tz (submitMessage create calendar eventId formData) p)
         = trace p @ [Call (CreateEvent (fd_title formData) (toISOString t)
                              (toISOString (t + 3600000)) (fd_isAllDay formData))]
       \<and> length (inFlight (receive tz (submitMessage create calendar eventId formData) p))
           = Suc (length (inFlight p))
       \<and> controller (receive tz (submitMessage create calendar eventId formData) p) = controller p)"
proof (intro conjI impI)
  show "trace (receive tz message p) = trace p @ trace (receive tz message (p\<lparr>inFlight := [], trace := []\<rparr>))"
    by (subst receive_decomp) simp
  show "inFlight (receive tz message p)
       = inFlight p @ inFlight (receive tz message (p\<lparr>inFlight := [], trace := []\<rparr>))"
    by (subst receive_decomp) simp
next
  assume a: "calendarProviderSet (controller p) \<and> fd_title formData \<noteq> []
        \<and> dateParse tz (fd_date formData @ ''T'' @ fd_time formData @ '':00'') = Some t"
  let ?m = "submitMessage create calendar eventId formData"
  obtain k where k: "andThen (submitCreateEvent tz (controller p) formData) (Emit ClearForm Done) =
          Await (Facade (CreateEvent (fd_title formData) (toISOString t)
                           (toISOString (t + 3600000)) (fd_isAllDay formData))) k"
    using submitCreateEvent_ready a by blast
  have o: "onMessage tz (controller p) ?m =
             (controller p, andThen (submitCreateEvent tz (controller p) formData) (Emit ClearForm Done))"
    by (simp add: onMessage_def submitMessage_def)
  have r: "receive tz ?m p =
             p\<lparr>inFlight := inFlight p @ [k],
               trace := trace p @ [Call (CreateEvent (fd_title formData) (toISOString t)
                              (toISOString (t + 3600000)) (fd_isAllDay formData))]\<rparr>"
    by (simp add: receive_def o k issued_def)
  show "trace (receive tz ?m p)
         = trace p @ [Call (CreateEvent (fd_title formData) (toISOString t)
                              (toISOString (t + 3600000)) (fd_isAllDay formData))]"
    by (simp add: r)
  show "length (inFlight (receive tz ?m p)) = Suc (length (inFlight p))"
    by (simp add: r)
  show "controller (receive tz ?m p) = controller p"
    by (simp add: r)
qed

text \<open>
  The same form submitted twice, the second while the first call is unanswered: the
  second message adds a second call.
\<close>

theorem submit_is_dispatched_regardless_witness:
  "submitting (receive centralTime sample_submit sample_panel)
   \<and> trace (receive centralTime sample_submit (receive centralTime sample_submit sample_panel))
       = trace (receive centralTime sample_submit sample_panel)
         @ [Call (CreateEvent ''Dentist'' ''2025-10-21T21:00:00.000Z'' ''2025-10-21T22:00:00.000Z'' False)]"
proof -
  let ?p = "receive centralTime sample_submit sample_panel"
  have s: "submitting ?p"
    unfolding submitting_def by code_simp
  have h1: "calendarProviderSet (controller ?p)"
    by code_simp
  have h2: "fd_title (sample_form False) \<noteq> []"
    by (simp add: sample_form_def)
  have h3: "dateParse centralTime (fd_date (sample_form False) @ ''T'' @ fd_time (sample_form False) @ '':00'')
              = Some 1761080400000"
    by code_simp
  have i1: "toISOString 1761080400000 = ''2025-10-21T21:00:00.000Z''"
    by code_simp
  have i2: "toISOString 1761084000000 = ''2025-10-21T22:00:00.000Z''"
    by code_simp
  have t: "fd_title (sample_form False) = ''Dentist''" "fd_isAllDay (sample_form False) = False"
    by (simp_all add: sample_form_def)
  have eq: "submitMessage create calendar None (sample_form False) = sample_submit"
    by (simp add: sample_submit_def)
  note th = submit_is_dispatched_regardless
      [of centralTime sample_submit ?p "sample_form False" 1761080400000 None,
       THEN conjunct2, THEN conjunct2, THEN mp, OF conjI [OF h1 conjI [OF h2 h3]], THEN conjunct1]
  show ?thesis
    using s th by (simp add: eq i1 i2 t)
qed

text \<open>
  The claim as written fails: after the first submit a mutation is outstanding, and the
  second submit is not rejected; two \<open>createEvent\<close> calls have been made.
\<close>

theorem second_submit_issues_second_call:
  "submitting (receive centralTime sample_submit sample_panel)
   \<and> facadeCalls (receive centralTime sample_submit (receive centralTime sample_submit sample_panel))
       = [Call (CreateEvent ''Dentist'' ''2025-10-21T21:00:00.000Z'' ''2025-10-21T22:00:00.000Z'' False),
          Call (CreateEvent ''Dentist'' ''2025-10-21T21:00:00.000Z'' ''2025-10-21T22:00:00.000Z'' False)]"
  unfolding submitting_def by code_simp

subsection \<open>C6: a declined confirmation\<close>

lemma handleDeleteEvent_cases:
  "handleDeleteEvent c eventId = Done
   \<or> (\<exists>k. handleDeleteEvent c eventId = Await (Dialog ''Delete this event?'' [''Delete'']) k
          \<and> (\<forall>r. r \<noteq> Picked (Some ''Delete'') \<longrightarrow> k r = Done))"
  by (simp add: handleDeleteEvent_def)

lemma onMessage_delete:
  "onMessage tz c (deleteMessage eventId) =
     (c, if eventId \<noteq> [] then handleDeleteEvent c eventId else Done)"
  by (simp add: onMessage_def deleteMessage_def truthy_def)

lemma take_drop_snoc: "take (length xs) (xs @ [k]) @ drop (Suc (length xs)) (xs @ [k]) = xs"
  by simp

lemma declined_delete:
  assumes "r \<noteq> Picked (Some ''Delete'')"
  shows "trace (receive tz (deleteMessage eventId) p) = trace p
         \<or> trace (receive tz (deleteMessage eventId) p) = trace p @ [Asked ''Delete this event?'' [''Delete'']]"
    and "resolve (length (inFlight p)) r (receive tz (deleteMessage eventId) p)
           = p\<lparr>trace := trace (receive tz (deleteMessage eventId) p)\<rparr>"
proof -
  let ?h = "if eventId \<noteq> [] then handleDeleteEvent (controller p) eventId else Done"
  have r: "receive tz (deleteMessage eventId) p = exec ?h p"
    by (simp add: receive_def onMessage_delete)
  consider (finished) "?h = Done"
    | (ask) k where "?h = Await (Dialog ''Delete this event?'' [''Delete'']) k"
        "\<forall>r. r \<noteq> Picked (Some ''Delete'') \<longrightarrow> k r = Done"
    using handleDeleteEvent_cases [of "controller p" eventId] by (cases "eventId \<noteq> []") auto
  then have "(trace (receive tz (deleteMessage eventId) p) = trace p
         \<or> trace (receive tz (deleteMessage eventId) p) = trace p @ [Asked ''Delete this event?'' [''Delete'']])
     \<and> resolve (length (inFlight p)) r (receive tz (deleteMessage eventId) p)
           = p\<lparr>trace := trace (receive tz (deleteMessage eventId) p)\<rparr>"
  proof cases
    case finished
    then show ?thesis unfolding r by (simp add: resolve_def)
  next
    case ask
    from ask(2) assms have k: "k r = Done" by blast
    show ?thesis unfolding r ask(1) by (simp add: resolve_def issued_def k)
  qed
  then show "trace (receive tz (deleteMessage eventId) p) = trace p
         \<or> trace (receive tz (deleteMessage eventId) p) = trace p @ [Asked ''Delete this event?'' [''Delete'']]"
    and "resolve (length (inFlight p)) r (receive tz (deleteMessage eventId) p)
           = p\<lparr>trace := trace (receive tz (deleteMessage eventId) p)\<rparr>"
    by blast+
qed

lemma facadeCalls_asked:
  "trace q = trace p \<or> trace q = trace p @ [Asked m bs] \<Longrightarrow> facadeCalls q = facadeCalls p"
  by (auto simp: facadeCalls_def isFacadeCall_def)

text \<open>
  C6. When the answer to the confirmation dialog of a delete request is anything but
  \<open>Delete\<close> (another button, or the dialog dismissed), no call to the remote stores is
  made, neither when the request is received nor when the dialog is answered, and the
  panel is as before: the controller's fields and the handlers in flight are unchanged.
  Likewise the command that clears a task's schedule makes no call when its dialog is
  answered by anything but \<open>Clear\<close>.
\<close>

theorem declined_confirmation_changes_nothing:
  "(r \<noteq> Picked (Some ''Delete'') \<longrightarrow>
      facadeCalls (receive tz (deleteMessage eventId) p) = facadeCalls p
    \<and> facadeCalls (resolve (length (inFlight p)) r (receive tz (deleteMessage eventId) p)) = facadeCalls p
    \<and> controller (resolve (length (inFlight p)) r (receive tz (deleteMessage eventId) p)) = controller p
    \<and> inFlight (resolve (length (inFlight p)) r (receive tz (deleteMessage eventId) p)) = inFlight p)
   \<and> (answer (Dialog ''Clear this task schedule?'' [''Clear'', ''Cancel'']) \<noteq> Picked (Some ''Clear'') \<longrightarrow>
      filter isFacadeCall (runWith answer (clearTaskSchedule node)) = [])"
proof (intro conjI impI)
  assume a: "r \<noteq> Picked (Some ''Delete'')"
  let ?q = "receive tz (deleteMessage eventId) p"
  note d = declined_delete [OF a]
  show 1: "facadeCalls ?q = facadeCalls p"
    using d(1) by (rule facadeCalls_asked)
  show "facadeCalls (resolve (length (inFlight p)) r ?q) = facadeCalls p"
    using 1 by (simp add: d(2) facadeCalls_def)
  show "controller (resolve (length (inFlight p)) r ?q) = controller p"
    by (simp add: d(2))
  show "inFlight (resolve (length (inFlight p)) r ?q) = inFlight p"
    by (simp add: d(2))
next
  assume "answer (Dialog ''Clear this task schedule?'' [''Clear'', ''Cancel'']) \<noteq> Picked (Some ''Clear'')"
  then show "filter isFacadeCall (runWith answer (clearTaskSchedule node)) = []"
    by (simp add: clearTaskSchedule_def issued_def isFacadeCall_def)
qed

text \<open>The dialog dismissed on a delete request for \<open>e1\<close>; the clear dialog dismissed.\<close>

theorem declined_confirmation_changes_nothing_witness:
  "facadeCalls (resolve 0 (Picked None) (receive centralTime (deleteMessage ''e1'') sample_panel)) = []
   \<and> trace (resolve 0 (Picked None) (receive centralTime (deleteMessage ''e1'') sample_panel))
       = [Asked ''Delete this event?'' [''Delete'']]
   \<and> controller (resolve 0 (Picked None) (receive centralTime (deleteMessage ''e1'') sample_panel))
       = sample_controller
   \<and> filter isFacadeCall
        (runWith sample_store
           (clearTaskSchedule \<lparr>node_task = sample_task ''tB'' (Some ''Call'') (Some ''2025-10-20''),
                                node_taskListId = ''L1''\<rparr>)) = []"
proof -
  have h1: "Picked None \<noteq> Picked (Some ''Delete'')" by simp
  have h2: "sample_store (Dialog ''Clear this task schedule?'' [''Clear'', ''Cancel'']) \<noteq> Picked (Some ''Clear'')"
    by (simp add: sample_store_def)
  have l: "length (inFlight sample_panel) = 0" "facadeCalls sample_panel = []"
    "controller sample_panel = sample_controller"
    by (simp_all add: sample_panel_def facadeCalls_def)
  have t: "trace (resolve 0 (Picked None) (receive centralTime (deleteMessage ''e1'') sample_panel))
       = [Asked ''Delete this event?'' [''Delete'']]"
    by code_simp
  show ?thesis
    using declined_confirmation_changes_nothing
      [of "Picked None" centralTime "''e1''" sample_panel sample_store
          "\<lparr>node_task = sample_task ''tB'' (Some ''Call'') (Some ''2025-10-20''), node_taskListId = ''L1''\<rparr>"]
      h1 h2 t
    by (simp add: l)
qed

subsection \<open>C9: the fallback over all task lists\<close>

lemma runWith_scanLists:
  "runWith answer (scanLists taskId ttl due ls) =
     map (\<lambda>l. Call (PatchTask l taskId ttl due))
         (takeWhile (patchFails answer taskId ttl due) (listIds ls))
     @ (case dropWhile (patchFails answer taskId ttl due) (listIds ls) of
          [] \<Rightarrow> [ShowWarning ''Task not found in any list'']
        | l # rest \<Rightarrow> [Call (PatchTask l taskId ttl due), ShowInformation ''Task updated!'',
                       RefreshCalendar])"
proof (induction ls)
  case Nil
  show ?case by (simp add: listIds_def)
next
  case (Cons l ls)
  show ?case
  proof (cases "truthy (tl_id l)")
    case False
    with Cons show ?thesis by (simp add: listIds_def)
  next
    case True
    with Cons show ?thesis
      by (simp add: listIds_def patchFails_def issued_def taskUpdated_def refreshProc_def)
  qed
qed

text \<open>
  C9. With a task service, a non-empty title, a date that parses and a non-empty list id
  supplied, \<open>submitEditTask\<close> first patches the task in the supplied list. If that
  succeeds it reports success and stops. If it is rejected (not found, or any other
  failure) it fetches the task lists and patches the task in each list that has an id,
  in order, up to and including the first list where the patch succeeds, where it
  reports success and stops; when the patch is rejected in every list it reports
  \<open>Task not found in any list\<close>, after the last list and not before.
\<close>

theorem submitEditTask_fallback:
  assumes "taskProviderSet c" and "taskServiceSet c" and "fd_title formData \<noteq> []"
    and "dateToISOString (dateParse tz (fd_date formData @ ''T00:00:00.000Z'')) = Inr due"
    and "l \<noteq> []"
    and "answer (Facade TasklistsList) = TaskLists ls"
  shows "runWith answer (submitEditTask tz c taskId formData (Some l)) =
           Call (PatchTask l taskId (fd_title formData) due) #
           (if \<not> patchFails answer taskId (fd_title formData) due l
            then [ShowInformation ''Task updated!'', RefreshCalendar]
            else Call TasklistsList #
                 map (\<lambda>i. Call (PatchTask i taskId (fd_title formData) due))
                     (takeWhile (patchFails answer taskId (fd_title formData) due) (listIds ls))
                 @ (case dropWhile (patchFails answer taskId (fd_title formData) due) (listIds ls) of
                      [] \<Rightarrow> [ShowWarning ''Task not found in any list'']
                    | i # rest \<Rightarrow> [Call (PatchTask i taskId (fd_title formData) due),
                                   ShowInformation ''Task updated!'', RefreshCalendar]))"
proof -
  have e: "\<not> isError (TaskLists ls)"
    by (simp add: isError_def)
  show ?thesis
    using assms e
    by (simp add: submitEditTask_def truthy_def issued_def patchFails_def
          searchAllLists_def runWith_scanLists taskUpdated_def refreshProc_def)
qed

text \<open>
  In the sample store task \<open>t1\<close> lives in \<open>L2\<close>: with the wrong list \<open>L0\<close> supplied,
  the scan stops at \<open>L2\<close> and never tries \<open>L3\<close>. Task \<open>t9\<close> lives nowhere: every list
  is tried, then the warning.
\<close>

theorem submitEditTask_fallback_witness:
  "runWith sample_store (submitEditTask centralTime sample_controller ''t1'' (sample_form True) (Some ''L0''))
     = [Call (PatchTask ''L0'' ''t1'' ''Dentist'' ''2025-10-21T00:00:00.000Z''),
        Call TasklistsList,
        Call (PatchTask ''L1'' ''t1'' ''Dentist'' ''2025-10-21T00:00:00.000Z''),
        Call (PatchTask ''L2'' ''t1'' ''Dentist'' ''2025-10-21T00:00:00.000Z''),
        ShowInformation ''Task updated!'', RefreshCalendar]
   \<and> runWith sample_store (submitEditTask centralTime sample_controller ''t9'' (sample_form True) (Some ''L0''))
     = [Call (PatchTask ''L0'' ''t9'' ''Dentist'' ''2025-10-21T00:00:00.000Z''),
        Call TasklistsList,
        Call (PatchTask ''L1'' ''t9'' ''Dentist'' ''2025-10-21T00:00:00.000Z''),
        Call (PatchTask ''L2'' ''t9'' ''Dentist'' ''2025-10-21T00:00:00.000Z''),
        Call (PatchTask ''L3'' ''t9'' ''Dentist'' ''2025-10-21T00:00:00.000Z''),
        ShowWarning ''Task not found in any list'']"
proof -
  have h: "taskProviderSet sample_controller" "taskServiceSet sample_controller"
    "fd_title (sample_form True) \<noteq> []" "''L0'' \<noteq> []"
    "sample_store (Facade TasklistsList) = TaskLists sample_lists"
    by (simp_all add: sample_controller_def sample_form_def sample_store_def)
  have d: "dateToISOString (dateParse centralTime (fd_date (sample_form True) @ ''T00:00:00.000Z''))
             = Inr ''2025-10-21T00:00:00.000Z''"
    by code_simp
  have t: "fd_title (sample_form True) = ''Dentist''"
    by (simp add: sample_form_def)
  have i: "listIds sample_lists = [''L1'', ''L2'', ''L3'']"
    by (simp add: listIds_def sample_lists_def truthy_def)
  have f: "\<And>tid l. patchFails sample_store tid ''Dentist'' ''2025-10-21T00:00:00.000Z'' l
             = (\<not> (l = ''L2'' \<and> tid = ''t1''))"
    by (simp add: patchFails_def sample_store_def isError_def)
  show ?thesis
    using submitEditTask_fallback [where answer = sample_store and taskId = "''t1''", OF h(1) h(2) h(3) d h(4) h(5)]
      submitEditTask_fallback [where answer = sample_store and taskId = "''t9''", OF h(1) h(2) h(3) d h(4) h(5)]
    by (simp add: t i f)
qed

section \<open>Properties of the click handling\<close>

subsection \<open>A page with no timer pending\<close>








subsection \<open>C5: single clicks and double clicks\<close>




subsection \<open>Pages with other timers pending\<close>

text \<open>
  With timers of other cells pending, the same gestures counted per cell: timers and
  listeners of other cells leave a cell's count of selections and of opened forms alone.
\<close>

lemma timerFires_simps:
  "lastClickTime (timerFires k p) = lastClickTime p"
  "activations d (timerFires k p) = activations d p"
  "selections d (timerFires k p) = selections d p + (if k = d \<and> d \<noteq> [] then 1 else 0)"
  "dayClickTimeouts (timerFires k p) = removeKey k (dayClickTimeouts p)"
  by (auto simp: timerFires_def activations_def selections_def Let_def)

lemma fold_timers:
  "lastClickTime (foldl (\<lambda>p k. timerFires k p) p ks) = lastClickTime p
   \<and> activations d (foldl (\<lambda>p k. timerFires k p) p ks) = activations d p
   \<and> selections d (foldl (\<lambda>p k. timerFires k p) p ks)
       = selections d p + (if d = [] then 0 else count_list ks d)
   \<and> dayClickTimeouts (foldl (\<lambda>p k. timerFires k p) p ks)
       = filter (\<lambda>e. fst e \<notin> set ks) (dayClickTimeouts p)"
proof (induction ks arbitrary: p)
  case Nil
  show ?case by simp
next
  case (Cons k ks)
  show ?case
    using Cons [of "timerFires k p"]
    by (auto simp: timerFires_simps removeKey_def intro: filter_cong)
qed

lemma count_due:
  "count_list (map fst (filter P ts)) d = length (filter P (filter (\<lambda>e. fst e = d) ts))"
  by (induction ts) auto

lemma fireDue_effect:
  "lastClickTime (fireDue now p) = lastClickTime p"
  "activations d (fireDue now p) = activations d p"
  "d \<noteq> [] \<Longrightarrow> selections d (fireDue now p)
       = selections d p + length (filter (\<lambda>e. snd e \<le> now) (timersOf d p))"
  "timersOf d (fireDue now p)
       = (if \<exists>e \<in> set (timersOf d p). snd e \<le> now then [] else timersOf d p)"
proof -
  let ?ks = "map fst (filter (\<lambda>e. snd e \<le> now) (dayClickTimeouts p))"
  note f = fold_timers [of p ?ks d]
  show "lastClickTime (fireDue now p) = lastClickTime p"
    using f by (simp add: fireDue_def)
  show "activations d (fireDue now p) = activations d p"
    using f by (simp add: fireDue_def)
  show "selections d (fireDue now p)
       = selections d p + length (filter (\<lambda>e. snd e \<le> now) (timersOf d p))" if "d \<noteq> []"
    using f that by (simp add: fireDue_def count_due timersOf_def)
  have d: "dayClickTimeouts (fireDue now p) = filter (\<lambda>e. fst e \<notin> set ?ks) (dayClickTimeouts p)"
    using f by (simp add: fireDue_def)
  show "timersOf d (fireDue now p)
       = (if \<exists>e \<in> set (timersOf d p). snd e \<le> now then [] else timersOf d p)"
    unfolding timersOf_def d
    by (auto simp: filter_empty_conv image_iff intro!: filter_cong) 
qed


lemma fireDue_quiet:
  assumes "d \<noteq> []" and "\<forall>e \<in> set (timersOf d p). now < snd e"
  shows "selections d (fireDue now p) = selections d p"
    and "timersOf d (fireDue now p) = timersOf d p"
proof -
  have n: "filter (\<lambda>e. snd e \<le> now) (timersOf d p) = []"
    using assms(2) by (auto simp: filter_empty_conv)
  show "selections d (fireDue now p) = selections d p"
    using assms(1) n by (simp add: fireDue_effect)
  show "timersOf d (fireDue now p) = timersOf d p"
    using assms(2) by (auto simp: fireDue_effect)
qed

lemma onClick_effect:
  "selections d' (onClick d now p) = selections d' p"
  "activations d' (onClick d now p) = activations d' p"
  "lastClickTime (onClick d now p) = (lastClickTime p)(d := now)"
  "d' \<noteq> d \<Longrightarrow> timersOf d' (onClick d now p) = timersOf d' p"
  "timersOf d (onClick d now p) =
     (if now - lastClickTime p d < DOUBLE_CLICK_DELAY \<and> now - lastClickTime p d > 0
      then timersOf d p else [(d, now + DOUBLE_CLICK_DELAY)])"
  by (auto simp: onClick_def Let_def selections_def activations_def timersOf_def removeKey_def
        filter_empty_conv intro!: filter_cong [OF refl])

lemma onDblClick_effect:
  "selections d' (onDblClick d p) = selections d' p"
  "activations d' (onDblClick d p) = activations d' p + (if d' = d \<and> d \<noteq> [] then 1 else 0)"
  "lastClickTime (onDblClick d p) = lastClickTime p"
  "timersOf d (onDblClick d p) = []"
  by (auto simp: onDblClick_def Let_def selections_def activations_def timersOf_def removeKey_def
        filter_empty_conv)

lemma deliver_simps:
  "deliver [] p = p"
  "deliver (Click d now # es) p = deliver es (onClick d now (fireDue now p))"
  "deliver (DblClick d now # es) p = deliver es (onDblClick d (fireDue now p))"
  by (simp_all add: deliver_def dispatch_def)

lemma double_press:
  assumes d: "d \<noteq> []" and none: "timersOf d pg = []"
    and t: "t1 \<le> t2" "t2 < t1 + DOUBLE_CLICK_DELAY" "t2 \<le> T"
  shows "activations d (fireDue T (deliver [Click d t1, Click d t2, DblClick d t2] pg))
           = activations d pg + 1
       \<and> selections d (fireDue T (deliver [Click d t1, Click d t2, DblClick d t2] pg))
           = selections d pg
       \<and> timersOf d (fireDue T (deliver [Click d t1, Click d t2, DblClick d t2] pg)) = []"
proof -
  define p0 where "p0 = fireDue t1 pg"
  define p1 where "p1 = onClick d t1 p0"
  define p2 where "p2 = fireDue t2 p1"
  define p3 where "p3 = onClick d t2 p2"
  define p4 where "p4 = fireDue t2 p3"
  define p5 where "p5 = onDblClick d p4"
  have r: "deliver [Click d t1, Click d t2, DblClick d t2] pg = p5"
    by (simp add: deliver_simps p0_def p1_def p2_def p3_def p4_def p5_def)
  have q0: "\<forall>e \<in> set (timersOf d pg). t1 < snd e"
    using none by simp
  have s0: "selections d p0 = selections d pg" "timersOf d p0 = []"
    using fireDue_quiet [OF d q0] none by (simp_all add: p0_def)
  have s1: "selections d p1 = selections d pg" "\<forall>e \<in> set (timersOf d p1). t2 < snd e"
    using s0 t by (auto simp: p1_def onClick_effect)
  have s2: "selections d p2 = selections d pg" "\<forall>e \<in> set (timersOf d p2). t2 < snd e"
    using fireDue_quiet [OF d s1(2)] s1 by (simp_all add: p2_def)
  have s3: "selections d p3 = selections d pg" "\<forall>e \<in> set (timersOf d p3). t2 < snd e"
    using s2 by (auto simp: p3_def onClick_effect DOUBLE_CLICK_DELAY_def)
  have s4: "selections d p4 = selections d pg"
    using fireDue_quiet [OF d s3(2)] s3 by (simp_all add: p4_def)
  have s5: "selections d p5 = selections d pg" "timersOf d p5 = []"
    using s4 by (simp_all add: p5_def onDblClick_effect)
  have q5: "\<forall>e \<in> set (timersOf d p5). T < snd e"
    using s5 by simp
  have a: "activations d p5 = activations d pg + 1"
    using d by (simp add: p5_def p4_def p3_def p2_def p1_def p0_def onDblClick_effect
          fireDue_effect onClick_effect)
  show ?thesis
    unfolding r using fireDue_quiet [OF d q5] s5 a by (simp add: fireDue_effect)
qed

lemma two_targets:
  assumes d: "d1 \<noteq> d2" "d1 \<noteq> []" "d2 \<noteq> []"
    and none: "timersOf d1 pg = []" "timersOf d2 pg = []"
    and quiet: "lastClickTime pg d1 + DOUBLE_CLICK_DELAY \<le> t1"
               "lastClickTime pg d2 + DOUBLE_CLICK_DELAY \<le> t2"
    and t: "t1 \<le> t2" "t2 + DOUBLE_CLICK_DELAY \<le> T"
  shows "selections d1 (fireDue T (deliver [Click d1 t1, Click d2 t2] pg)) = selections d1 pg + 1
       \<and> selections d2 (fireDue T (deliver [Click d1 t1, Click d2 t2] pg)) = selections d2 pg + 1
       \<and> activations d1 (fireDue T (deliver [Click d1 t1, Click d2 t2] pg)) = activations d1 pg
       \<and> activations d2 (fireDue T (deliver [Click d1 t1, Click d2 t2] pg)) = activations d2 pg"
proof -
  define p0 where "p0 = fireDue t1 pg"
  define p1 where "p1 = onClick d1 t1 p0"
  define p2 where "p2 = fireDue t2 p1"
  define p3 where "p3 = onClick d2 t2 p2"
  have r: "deliver [Click d1 t1, Click d2 t2] pg = p3"
    by (simp add: deliver_simps p0_def p1_def p2_def p3_def)
  have a0: "selections d1 p0 = selections d1 pg" "timersOf d1 p0 = []"
    "selections d2 p0 = selections d2 pg" "timersOf d2 p0 = []"
    "lastClickTime p0 = lastClickTime pg"
    using d none by (simp_all add: p0_def fireDue_effect)
  have a1: "selections d1 p1 = selections d1 pg" "timersOf d1 p1 = [(d1, t1 + DOUBLE_CLICK_DELAY)]"
    "selections d2 p1 = selections d2 pg" "timersOf d2 p1 = []"
    "lastClickTime p1 d2 = lastClickTime pg d2"
    using d a0 quiet(1) by (simp_all add: p1_def onClick_effect)
  have a2: "selections d1 p2 + length (filter (\<lambda>e. snd e \<le> T) (timersOf d1 p2)) = selections d1 pg + 1"
    "selections d2 p2 = selections d2 pg" "timersOf d2 p2 = []"
    "lastClickTime p2 d2 = lastClickTime pg d2"
    using d a1 t by (simp_all add: p2_def fireDue_effect)
  have a3: "selections d1 p3 + length (filter (\<lambda>e. snd e \<le> T) (timersOf d1 p3)) = selections d1 pg + 1"
    "selections d2 p3 = selections d2 pg" "timersOf d2 p3 = [(d2, t2 + DOUBLE_CLICK_DELAY)]"
    using d a2 quiet(2) by (simp_all add: p3_def onClick_effect)
  have act: "activations d1 (fireDue T p3) = activations d1 pg"
    "activations d2 (fireDue T p3) = activations d2 pg"
    by (simp_all add: p3_def p2_def p1_def p0_def fireDue_effect onClick_effect)
  show ?thesis
    unfolding r using d a3 t act by (simp add: fireDue_effect)
qed
end
